theory Spec2Isabelle
  imports Complex_Main
begin

section \<open>The photo batch processor front end (static/app.js) as an event-driven state machine\<close>

text \<open>
  The program is a single script: a global \<^verbatim>\<open>state\<close> object, a table of page elements, and
  event handlers that run to completion on the browser's event loop. A handler that awaits
  a network request is cut at the await: the part before it issues the request, the part
  after it (named \<open>..._resume\<close>) runs when the request settles. The browser's side
  (requests in flight, live timers, open event sources, the alerts shown, the console) is
  part of the modelled state, so that the order in which requests settle and timers fire
  is chosen by the sequence of events and by nothing else.

  Numbers are \<open>real\<close>: the script only stores, shows and sends the adjustment values, it
  never calculates with them. File ids, batch ids and object URLs are strings (a server
  that sent file ids of another JSON type is outside the model). A JSON
  object is the list of its properties in order. Left out are the parts of the page that
  touch nothing else: the dragging of the comparison slider and the Download All button,
  which only clicks the links of the page.
\<close>

subsection \<open>Data\<close>

datatype jv = JNum real | JStr string | JNull

type_synonym obj = "(string \<times> jv) list"

text \<open>Property assignment \<^verbatim>\<open>o[k] = v\<close>: an existing key keeps its place, a new key goes last.\<close>

fun obj_put :: "string \<Rightarrow> 'v \<Rightarrow> (string \<times> 'v) list \<Rightarrow> (string \<times> 'v) list" where
  "obj_put k v [] = [(k, v)]"
| "obj_put k v (p # ps) = (if fst p = k then (k, v) # ps else p # obj_put k v ps)"

record uploaded_file =
  file_id :: string
  filename :: string
  selected :: bool

datatype display = Unset | D_none | D_block | D_flex

text \<open>
  How a request settles: the promise of \<^verbatim>\<open>fetch\<close> rejects (network failure), or it
  resolves to a response with its \<^verbatim>\<open>ok\<close> flag (any HTTP status) and a body, which the
  script may fail to read (\<^verbatim>\<open>response.json()\<close> on a body that is not JSON).
\<close>

datatype 'a body = Unreadable string | Body 'a

datatype 'a reply = Rejected string | Replied bool "'a body"

datatype origin = From_timer | From_toggle

text \<open>
  The requests the script issues. Each carries what its address and body are built from;
  \<open>Req_upload\<close> also carries the files still to be uploaded by the loop of
  \<^verbatim>\<open>handleFiles\<close>, and \<open>Req_baseline\<close> the caller of \<^verbatim>\<open>loadBeforeImage\<close> that awaits it.
  The active file id of \<open>Req_preview\<close> is the one read when the timer fires; it can be
  \<^verbatim>\<open>null\<close>, since the timer callback does not test it.
\<close>

datatype request =
    Req_upload string "string list"
  | Req_preview "string option" obj
  | Req_baseline string obj origin
  | Req_preset string
  | Req_batch_start "string list" obj "string option"
  | Req_delete string

text \<open>The fields the script reads from the body of the upload response, from a result of a
  finished job, and from the data of a progress message (where \<^verbatim>\<open>error\<close>, \<^verbatim>\<open>status\<close> and
  \<^verbatim>\<open>current_file\<close> may be missing).\<close>

record upload_data =
  u_file_id :: string
  u_filename :: string
  u_error :: string

record export_result =
  r_filename :: string
  r_success :: bool
  r_download_url :: "string option"

record progress_event =
  ev_error :: "string option"
  ev_current :: int
  ev_total :: int
  ev_status :: "string option"
  ev_current_file :: "string option"
  ev_done :: bool
  ev_results :: "export_result list"

text \<open>
  The whole state: the fields of \<^verbatim>\<open>state\<close>, then the properties of the page elements the
  script writes, then the browser's side. \<open>issued\<close> lists every request in the order of
  issue (a request's handle is its position), \<open>pending\<close> the handles not yet settled;
  \<open>timers\<close> are the live timeouts; \<open>sources\<close> are the event sources created, each with the
  batch id it was opened for (\<open>None\<close> is \<^verbatim>\<open>undefined\<close>) and whether it is still open.
\<close>

record app =
  files :: "uploaded_file list"
  activeFileId :: "string option"
  settings :: obj
  previewDebounce :: "nat option"
  compareMode :: bool
  beforeImageUrl :: "string option"
  afterImageUrl :: "string option"
  previewImage_src :: "string option"
  previewImage_display :: display
  previewPlaceholder_display :: display
  previewLoading_display :: display
  comparisonContainer_display :: display
  comparisonBefore_width :: nat
  comparisonSlider_left :: nat
  beforeImage_src :: "string option"
  afterImage_src :: "string option"
  slider_value :: "(string \<times> jv option) list"
  valueDisplay :: "(string \<times> real) list"
  fileList_items :: "string list"
  fileList_plain :: bool
  fileCount :: nat
  btnExportSelected_disabled :: bool
  btnExportAll_disabled :: bool
  btnSelectAll_text :: string
  exportFilename_value :: string
  progressSection_display :: display
  downloadSection_display :: display
  progressFill :: "(int \<times> int) option"
  progressStatus :: string
  progressDetail :: string
  downloadSummary :: "(nat \<times> nat) option"
  downloadLinks :: "export_result list"
  issued :: "request list"
  pending :: "nat list"
  timers :: "nat list"
  next_timer :: nat
  sources :: "(string option \<times> bool) list"
  alerts :: "string list"
  console :: "string list"

definition defaultSettings :: obj where
  "defaultSettings =
     [(''exposure'', JNum 1), (''warmth'', JNum 0), (''contrast'', JNum 1),
      (''shadows'', JNum 0), (''highlights'', JNum 0), (''clarity'', JNum 0),
      (''vibrance'', JNum 0), (''vignette'', JNum 0), (''sharpness'', JNum 1)]"

definition sliders :: "string list" where
  "sliders = [''exposure'', ''warmth'', ''contrast'', ''shadows'', ''highlights'',
              ''clarity'', ''vibrance'', ''vignette'', ''sharpness'']"

text \<open>The state when the script has run \<^verbatim>\<open>init()\<close>: the literal of \<^verbatim>\<open>state\<close>, a page nobody
  has touched, and a browser with nothing in flight. Timer handles start at 1.\<close>

definition init_app :: app where
  "init_app = \<lparr>
     files = [], activeFileId = None, settings = defaultSettings, previewDebounce = None,
     compareMode = False, beforeImageUrl = None, afterImageUrl = None,
     previewImage_src = None, previewImage_display = Unset,
     previewPlaceholder_display = Unset, previewLoading_display = Unset,
     comparisonContainer_display = Unset, comparisonBefore_width = 50,
     comparisonSlider_left = 50, beforeImage_src = None, afterImage_src = None,
     slider_value = [], valueDisplay = [], fileList_items = [], fileList_plain = True,
     fileCount = 0,
     btnExportSelected_disabled = False, btnExportAll_disabled = False,
     btnSelectAll_text = ''Select All'', exportFilename_value = [],
     progressSection_display = Unset, downloadSection_display = Unset,
     progressFill = None, progressStatus = [], progressDetail = [],
     downloadSummary = None, downloadLinks = [],
     issued = [], pending = [], timers = [], next_timer = 1, sources = [],
     alerts = [], console = [] \<rparr>"

subsection \<open>The browser's services\<close>

text \<open>JavaScript truthiness of a value that is \<^verbatim>\<open>null\<close> or a string: the empty string is falsy.\<close>

definition truthy :: "string option \<Rightarrow> bool" where
  "truthy x = (case x of None \<Rightarrow> False | Some v \<Rightarrow> v \<noteq> [])"

definition fetch :: "request \<Rightarrow> app \<Rightarrow> app" where
  "fetch r s = s\<lparr>issued := issued s @ [r], pending := pending s @ [length (issued s)]\<rparr>"

definition settle :: "nat \<Rightarrow> app \<Rightarrow> app" where
  "settle h s = s\<lparr>pending := removeAll h (pending s)\<rparr>"

definition request_of :: "app \<Rightarrow> nat \<Rightarrow> request option" where
  "request_of s h =
     (if h \<in> set (pending s) \<and> h < length (issued s) then Some (issued s ! h) else None)"

definition setTimeout :: "app \<Rightarrow> nat \<times> app" where
  "setTimeout s = (next_timer s, s\<lparr>timers := timers s @ [next_timer s], next_timer := Suc (next_timer s)\<rparr>)"

definition clearTimeout :: "nat \<Rightarrow> app \<Rightarrow> app" where
  "clearTimeout t s = s\<lparr>timers := removeAll t (timers s)\<rparr>"

definition alert :: "string \<Rightarrow> app \<Rightarrow> app" where
  "alert msg s = s\<lparr>alerts := alerts s @ [msg]\<rparr>"

definition console_error :: "string \<Rightarrow> app \<Rightarrow> app" where
  "console_error msg s = s\<lparr>console := console s @ [msg]\<rparr>"

text \<open>\<^verbatim>\<open>eventSource.close()\<close> on the source with handle \<open>h\<close>.\<close>

definition es_close :: "nat \<Rightarrow> app \<Rightarrow> app" where
  "es_close h s =
     (if h < length (sources s) then s\<lparr>sources := (sources s)[h := (fst (sources s ! h), False)]\<rparr>
      else s)"

definition es_open :: "nat \<Rightarrow> app \<Rightarrow> bool" where
  "es_open h s = (h < length (sources s) \<and> snd (sources s ! h))"

text \<open>
  \<^verbatim>\<open>String.prototype.trim\<close> removes white space and line terminators from both ends. A
  \<open>string\<close> here is the UTF-8 encoding of the text, so each of these characters is the
  sequence of bytes that encodes it: U+0009 to U+000D, U+0020, U+00A0, U+1680, U+2000 to
  U+200A, U+2028, U+2029, U+202F, U+205F, U+3000 and U+FEFF.
\<close>

definition white_space :: "string list" where
  "white_space =
     [[CHR 0x09], [CHR 0x0A], [CHR 0x0B], [CHR 0x0C], [CHR 0x0D], [CHR 0x20],
      [CHR 0xC2, CHR 0xA0], [CHR 0xE1, CHR 0x9A, CHR 0x80]] @
     map (\<lambda>c. [CHR 0xE2, CHR 0x80, c])
       [CHR 0x80, CHR 0x81, CHR 0x82, CHR 0x83, CHR 0x84, CHR 0x85, CHR 0x86, CHR 0x87,
        CHR 0x88, CHR 0x89, CHR 0x8A, CHR 0xA8, CHR 0xA9, CHR 0xAF] @
     [[CHR 0xE2, CHR 0x81, CHR 0x9F], [CHR 0xE3, CHR 0x80, CHR 0x80],
      [CHR 0xEF, CHR 0xBB, CHR 0xBF]]"

text \<open>\<open>strip ws x\<close> removes from the front of \<open>x\<close> every leading occurrence of a sequence
  of \<open>ws\<close>.\<close>

function strip :: "string list \<Rightarrow> string \<Rightarrow> string" where
  "strip ws x =
     (case List.find (\<lambda>w. w \<noteq> [] \<and> take (length w) x = w) ws of
        None \<Rightarrow> x
      | Some w \<Rightarrow> strip ws (drop (length w) x))"
  by pat_completeness auto
termination
proof (relation "measure (\<lambda>(ws, x). length x)")
  show "wf (measure (\<lambda>(ws, x). length x))" by simp
next
  fix ws :: "string list" and x w :: string
  assume "List.find (\<lambda>w. w \<noteq> [] \<and> take (length w) x = w) ws = Some w"
  then have "w \<noteq> []" and "take (length w) x = w"
    by (auto simp: find_Some_iff)
  then have "0 < length w" and "length (take (length w) x) = length w"
    by simp_all
  then have "length (drop (length w) x) < length x"
    by (cases x) auto
  then show "((ws, drop (length w) x), (ws, x)) \<in> measure (\<lambda>(ws, x). length x)"
    by simp
qed

declare strip.simps [simp del]

definition trim :: "string \<Rightarrow> string" where
  "trim x = rev (strip (map rev white_space) (rev (strip white_space x)))"

subsection \<open>The handlers of the script\<close>

text \<open>
  \<^verbatim>\<open>updateFileList\<close> writes every id and every file name, unescaped, into the markup of
  the list (\<^verbatim>\<open>innerHTML\<close>), and each listener later reads its id back from the element
  the browser has built (\<^verbatim>\<open>item.dataset.id\<close>). A text is \<open>plain\<close> when the HTML parser
  gives it back as it was written, as an attribute value and as element content: it has
  no double quote, no \<^verbatim>\<open>&\<close>, no \<^verbatim>\<open><\<close>, no NUL and no carriage return. The model keeps
  the ids written and whether everything written was plain. When it was, the list has
  exactly one item for each file, and the item gives back the file's id. When it was
  not, the items and their ids are whatever the parser makes of the markup: the model
  then lets a click carry any id (see \<open>has_item\<close>), and does not follow a failure to
  attach a listener.
\<close>

definition plain :: "string \<Rightarrow> bool" where
  "plain x = list_all (\<lambda>c. c \<notin> set [CHR 0x22, CHR ''&'', CHR ''<'', CHR 0x00, CHR 0x0D]) x"

definition updateFileList :: "app \<Rightarrow> app" where
  "updateFileList s =
     s\<lparr>fileList_items := map file_id (files s),
       fileList_plain := list_all (\<lambda>f. plain (file_id f) \<and> plain (filename f)) (files s)\<rparr>"

text \<open>The rendered list can deliver a click for the id \<open>fileId\<close>.\<close>

definition has_item :: "app \<Rightarrow> string \<Rightarrow> bool" where
  "has_item s fileId =
     (if fileList_plain s then fileId \<in> set (fileList_items s) else fileList_items s \<noteq> [])"

definition updateUI :: "app \<Rightarrow> app" where
  "updateUI s =
     (let s1 = updateFileList s in
      s1\<lparr>fileCount := length (files s1),
         btnExportSelected_disabled := (length (filter selected (files s1)) = 0),
         btnExportAll_disabled := (length (files s1) = 0),
         btnSelectAll_text :=
           (if length (files s1) > 0 \<and> list_all selected (files s1)
            then ''Deselect All'' else ''Select All'')\<rparr>)"

definition showPreviewLoading :: "bool \<Rightarrow> app \<Rightarrow> app" where
  "showPreviewLoading show s = s\<lparr>previewLoading_display := (if show then D_flex else D_none)\<rparr>"

definition updateComparisonView :: "app \<Rightarrow> app" where
  "updateComparisonView s =
     (if compareMode s \<and> truthy (activeFileId s) then
        s\<lparr>previewImage_display := D_none, comparisonContainer_display := D_block,
          comparisonBefore_width := 50, comparisonSlider_left := 50\<rparr>
      else
        (let s1 = s\<lparr>comparisonContainer_display := D_none\<rparr> in
         if truthy (activeFileId s1) then s1\<lparr>previewImage_display := D_block\<rparr> else s1))"

text \<open>\<^verbatim>\<open>updatePreview\<close>: nothing without an active file; otherwise the pending timeout, if
  any, is cleared and a new one is started. (The 300 ms callback is \<open>previewTimer\<close>.)\<close>

definition updatePreview :: "app \<Rightarrow> app" where
  "updatePreview s =
     (if \<not> truthy (activeFileId s) then s
      else
        (let s1 = (case previewDebounce s of None \<Rightarrow> s | Some t \<Rightarrow> clearTimeout t s);
             (t, s2) = setTimeout s1
         in s2\<lparr>previewDebounce := Some t\<rparr>))"

text \<open>\<^verbatim>\<open>loadBeforeImage\<close> up to its await: \<open>None\<close> when it returns at once (no active file),
  otherwise the state with the request for the default settings issued.\<close>

definition loadBeforeImage :: "origin \<Rightarrow> app \<Rightarrow> app option" where
  "loadBeforeImage k s =
     (case activeFileId s of
        None \<Rightarrow> None
      | Some a \<Rightarrow> if a = [] then None else Some (fetch (Req_baseline a defaultSettings k) s))"

definition loadBeforeImage_resume :: "string reply \<Rightarrow> app \<Rightarrow> app" where
  "loadBeforeImage_resume r s =
     (case r of
        Rejected msg \<Rightarrow> console_error ''Failed to load before image:'' s
      | Replied ok b \<Rightarrow>
          if ok then
            (case b of
               Unreadable msg \<Rightarrow> console_error ''Failed to load before image:'' s
             | Body url \<Rightarrow> s\<lparr>beforeImageUrl := Some url, beforeImage_src := Some url\<rparr>)
          else s)"

text \<open>The callback of the debounce timeout, up to \<^verbatim>\<open>await fetch(afterUrl)\<close>.\<close>

definition previewTimer :: "app \<Rightarrow> app" where
  "previewTimer s =
     (let s1 = showPreviewLoading True s
      in fetch (Req_preview (activeFileId s1) (settings s1)) s1)"

text \<open>The callback after \<^verbatim>\<open>loadBeforeImage\<close> has returned.\<close>

definition previewTimer_finish :: "app \<Rightarrow> app" where
  "previewTimer_finish s = showPreviewLoading False (updateComparisonView s)"

text \<open>The callback from the response on: an \<^verbatim>\<open>ok\<close> response becomes the preview and the
  "after" image, whichever request it answers.\<close>

definition previewTimer_resume :: "string reply \<Rightarrow> app \<Rightarrow> app" where
  "previewTimer_resume r s =
     (case r of
        Rejected msg \<Rightarrow> showPreviewLoading False (console_error ''Preview failed:'' s)
      | Replied ok b \<Rightarrow>
          if ok then
            (case b of
               Unreadable msg \<Rightarrow> showPreviewLoading False (console_error ''Preview failed:'' s)
             | Body objectUrl \<Rightarrow>
                 (let s1 = s\<lparr>previewImage_src := Some objectUrl,
                             previewImage_display := (if compareMode s then D_none else D_block),
                             previewPlaceholder_display := D_none,
                             afterImageUrl := Some objectUrl,
                             afterImage_src := Some objectUrl\<rparr>
                  in if compareMode s1 \<and> \<not> truthy (beforeImageUrl s1) then
                       (case loadBeforeImage From_timer s1 of
                          None \<Rightarrow> previewTimer_finish s1
                        | Some s2 \<Rightarrow> s2)
                     else previewTimer_finish s1))
          else showPreviewLoading False s)"

definition selectFile :: "string \<Rightarrow> app \<Rightarrow> app" where
  "selectFile fileId s =
     updateFileList (updatePreview (s\<lparr>activeFileId := Some fileId, beforeImageUrl := None\<rparr>))"

text \<open>\<^verbatim>\<open>handleFiles\<close>: the loop uploads one file at a time; when none is left, \<^verbatim>\<open>updateUI\<close>.\<close>

definition handleFiles :: "string list \<Rightarrow> app \<Rightarrow> app" where
  "handleFiles fs s = (case fs of [] \<Rightarrow> updateUI s | f # rest \<Rightarrow> fetch (Req_upload f rest) s)"

definition uploadFile_resume :: "upload_data reply \<Rightarrow> app \<Rightarrow> app" where
  "uploadFile_resume r s =
     (case r of
        Rejected msg \<Rightarrow> alert (''Upload failed: '' @ msg) s
      | Replied ok b \<Rightarrow>
          (case b of
             Unreadable msg \<Rightarrow> alert (''Upload failed: '' @ msg) s
           | Body data \<Rightarrow>
               if ok then
                 (let s1 = s\<lparr>files := files s @
                             [\<lparr>file_id = u_file_id data, filename = u_filename data,
                               selected = True\<rparr>]\<rparr>
                  in if \<not> truthy (activeFileId s1) then selectFile (u_file_id data) s1 else s1)
               else alert (''Upload failed: '' @ u_error data) s))"

text \<open>The change handler of the compare toggle, up to its await.\<close>

definition compareToggle_change :: "bool \<Rightarrow> app \<Rightarrow> app" where
  "compareToggle_change checked s =
     (let s1 = s\<lparr>compareMode := checked\<rparr> in
      if compareMode s1 \<and> truthy (activeFileId s1) then
        (if \<not> truthy (beforeImageUrl s1) then
           (let s2 = showPreviewLoading True s1 in
            case loadBeforeImage From_toggle s2 of
              None \<Rightarrow> updateComparisonView (showPreviewLoading False s2)
            | Some s3 \<Rightarrow> s3)
         else updateComparisonView s1)
      else updateComparisonView s1)"

definition compareToggle_finish :: "app \<Rightarrow> app" where
  "compareToggle_finish s = updateComparisonView (showPreviewLoading False s)"

text \<open>The input handler of the slider \<open>name\<close>; \<open>v\<close> is \<^verbatim>\<open>parseFloat(slider.value)\<close>.\<close>

definition slider_input :: "string \<Rightarrow> real \<Rightarrow> app \<Rightarrow> app" where
  "slider_input name v s =
     updatePreview
       (s\<lparr>settings := obj_put name (JNum v) (settings s),
          slider_value := obj_put name (Some (JNum v)) (slider_value s),
          valueDisplay := obj_put name v (valueDisplay s)\<rparr>)"

text \<open>\<^verbatim>\<open>updateSlidersFromSettings\<close>: \<^verbatim>\<open>value.toFixed\<close> throws on a value that is not a number;
  \<open>Inl\<close> is the state at the throw, with the controls written so far.\<close>

fun updateSlidersFromSettings :: "string list \<Rightarrow> app \<Rightarrow> app + app" where
  "updateSlidersFromSettings [] s = Inr s"
| "updateSlidersFromSettings (name # names) s =
     (let value = map_of (settings s) name;
          s1 = s\<lparr>slider_value := obj_put name value (slider_value s)\<rparr>
      in case value of
           Some (JNum v) \<Rightarrow>
             updateSlidersFromSettings names (s1\<lparr>valueDisplay := obj_put name v (valueDisplay s1)\<rparr>)
         | _ \<Rightarrow> Inl s1)"

text \<open>The click handlers of the preset and reset buttons from the response on; \<open>what\<close> is
  the message of their \<^verbatim>\<open>catch\<close>.\<close>

definition preset_resume :: "string \<Rightarrow> obj reply \<Rightarrow> app \<Rightarrow> app" where
  "preset_resume what r s =
     (case r of
        Rejected msg \<Rightarrow> console_error what s
      | Replied ok b \<Rightarrow>
          (case b of
             Unreadable msg \<Rightarrow> console_error what s
           | Body preset \<Rightarrow>
               (case updateSlidersFromSettings sliders (s\<lparr>settings := preset\<rparr>) of
                  Inl s1 \<Rightarrow> console_error what s1
                | Inr s1 \<Rightarrow> updatePreview s1)))"

definition preset_message :: "string \<Rightarrow> string" where
  "preset_message name = (if name = ''default'' then ''Failed to reset:'' else ''Failed to load preset:'')"

definition select_all_click :: "app \<Rightarrow> app" where
  "select_all_click s =
     (let allSelected = list_all selected (files s)
      in updateUI (s\<lparr>files := map (\<lambda>f. f\<lparr>selected := \<not> allSelected\<rparr>) (files s)\<rparr>))"

fun set_first_selected :: "string \<Rightarrow> bool \<Rightarrow> uploaded_file list \<Rightarrow> uploaded_file list" where
  "set_first_selected fileId c [] = []"
| "set_first_selected fileId c (f # fs) =
     (if file_id f = fileId then f\<lparr>selected := c\<rparr> # fs else f # set_first_selected fileId c fs)"

definition checkbox_change :: "string \<Rightarrow> bool \<Rightarrow> app \<Rightarrow> app" where
  "checkbox_change fileId c s = updateUI (s\<lparr>files := set_first_selected fileId c (files s)\<rparr>)"

definition getCustomFilename :: "app \<Rightarrow> string option" where
  "getCustomFilename s = (let input = trim (exportFilename_value s) in if input = [] then None else Some input)"

definition startBatchExport :: "string list \<Rightarrow> app \<Rightarrow> app" where
  "startBatchExport fileIds s =
     (let s1 = s\<lparr>progressSection_display := D_block, downloadSection_display := D_none,
                 progressFill := Some (0, 100)\<rparr>
      in fetch (Req_batch_start fileIds (settings s1) (getCustomFilename s1)) s1)"

definition monitorBatchProgress :: "string option \<Rightarrow> app \<Rightarrow> app" where
  "monitorBatchProgress batchId s = s\<lparr>sources := sources s @ [(batchId, True)]\<rparr>"

text \<open>\<^verbatim>\<open>startBatchExport\<close> from the response on. The script does not look at \<^verbatim>\<open>response.ok\<close>:
  whatever JSON object comes back, its \<^verbatim>\<open>batch_id\<close> (\<open>None\<close> when the object has none) goes
  to \<^verbatim>\<open>monitorBatchProgress\<close>. (The body \<^verbatim>\<open>null\<close> makes the destructuring throw, like a
  body that is not JSON: both are \<open>Unreadable\<close>.)\<close>

definition startBatchExport_resume :: "string option reply \<Rightarrow> app \<Rightarrow> app" where
  "startBatchExport_resume r s =
     (case r of
        Rejected msg \<Rightarrow> (alert (''Batch export failed: '' @ msg) s)\<lparr>progressSection_display := D_none\<rparr>
      | Replied ok b \<Rightarrow>
          (case b of
             Unreadable msg \<Rightarrow>
               (alert (''Batch export failed: '' @ msg) s)\<lparr>progressSection_display := D_none\<rparr>
           | Body batch_id \<Rightarrow> monitorBatchProgress batch_id s))"

definition showDownloadResults :: "export_result list \<Rightarrow> app \<Rightarrow> app" where
  "showDownloadResults results s =
     s\<lparr>downloadSection_display := D_block,
       downloadSummary := Some (length (filter r_success results), length results),
       downloadLinks := results\<rparr>"

text \<open>\<^verbatim>\<open>eventSource.onmessage\<close> of the source \<open>h\<close>, on the parsed data. The progress bar is
  kept as the pair (current, total) that its percentage is computed from.\<close>

definition onmessage :: "nat \<Rightarrow> progress_event \<Rightarrow> app \<Rightarrow> app" where
  "onmessage h d s =
     (if truthy (ev_error d) then
        (alert (the (ev_error d)) (es_close h s))\<lparr>progressSection_display := D_none\<rparr>
      else
        (let s1 = s\<lparr>progressFill := Some (ev_current d, ev_total d),
                    progressStatus :=
                      (if ev_status d = Some ''complete'' then ''Complete!'' else ''Processing...''),
                    progressDetail :=
                      (if truthy (ev_current_file d)
                       then ''Processing: '' @ the (ev_current_file d) else [])\<rparr>
         in if ev_done d then showDownloadResults (ev_results d) (es_close h s1) else s1))"

definition onerror :: "nat \<Rightarrow> app \<Rightarrow> app" where
  "onerror h s = es_close h s"

definition deleteFile :: "string \<Rightarrow> app \<Rightarrow> app" where
  "deleteFile fileId s = fetch (Req_delete fileId) s"

text \<open>\<^verbatim>\<open>deleteFile\<close> from the response on: a rejected request changes nothing; any response,
  whatever its status, removes the file.\<close>

definition deleteFile_resume :: "string \<Rightarrow> unit reply \<Rightarrow> app \<Rightarrow> app" where
  "deleteFile_resume fileId r s =
     (case r of
        Rejected msg \<Rightarrow> console_error ''Delete failed:'' s
      | Replied ok b \<Rightarrow>
          (let s1 = s\<lparr>files := filter (\<lambda>f. file_id f \<noteq> fileId) (files s)\<rparr>;
               s2 = (if activeFileId s1 = Some fileId then
                       (let s3 = s1\<lparr>activeFileId :=
                                      (case files s1 of [] \<Rightarrow> None | f # fs \<Rightarrow> Some (file_id f)),
                                    beforeImageUrl := None\<rparr>
                        in if truthy (activeFileId s3) then updatePreview s3
                           else s3\<lparr>previewImage_display := D_none,
                                   comparisonContainer_display := D_none,
                                   previewPlaceholder_display := D_block\<rparr>)
                     else s1)
           in updateUI s2))"

subsection \<open>The event loop\<close>

text \<open>
  Everything that can happen to the page. A handler runs only where the browser would run
  it: a click on a file item needs the rendered list to have the item, a settlement needs
  its request to be in flight, a timeout fires only while it is live, and an event source
  delivers nothing once it is closed. An event that is not enabled leaves the state as it is.
\<close>

datatype event =
    FilesChosen "string list"
  | UploadSettled nat "upload_data reply"
  | FilenameClicked string
  | CheckboxChanged string bool
  | DeleteClicked string
  | DeleteSettled nat "unit reply"
  | SliderInput string real
  | FilenameTyped string
  | PresetClicked
  | ResetClicked
  | PresetSettled nat "obj reply"
  | CompareToggled bool
  | TimerFired nat
  | PreviewSettled nat "string reply"
  | BaselineSettled nat "string reply"
  | SelectAllClicked
  | ExportSelectedClicked
  | ExportAllClicked
  | BatchStartSettled nat "string option reply"
  | SseMessage nat progress_event
  | SseError nat

fun step :: "event \<Rightarrow> app \<Rightarrow> app" where
  "step (FilesChosen fs) s = handleFiles fs s"
| "step (UploadSettled h r) s =
     (case request_of s h of
        Some (Req_upload f rest) \<Rightarrow> handleFiles rest (uploadFile_resume r (settle h s))
      | _ \<Rightarrow> s)"
| "step (FilenameClicked fileId) s =
     (if has_item s fileId then selectFile fileId s else s)"
| "step (CheckboxChanged fileId c) s =
     (if has_item s fileId then checkbox_change fileId c s else s)"
| "step (DeleteClicked fileId) s =
     (if has_item s fileId then deleteFile fileId s else s)"
| "step (DeleteSettled h r) s =
     (case request_of s h of
        Some (Req_delete fileId) \<Rightarrow> deleteFile_resume fileId r (settle h s)
      | _ \<Rightarrow> s)"
| "step (SliderInput name v) s =
     (if name \<in> set sliders then slider_input name v s else s)"
| "step (FilenameTyped x) s = s\<lparr>exportFilename_value := x\<rparr>"
| "step PresetClicked s = fetch (Req_preset ''landscape-lighting'') s"
| "step ResetClicked s = fetch (Req_preset ''default'') s"
| "step (PresetSettled h r) s =
     (case request_of s h of
        Some (Req_preset name) \<Rightarrow> preset_resume (preset_message name) r (settle h s)
      | _ \<Rightarrow> s)"
| "step (CompareToggled checked) s = compareToggle_change checked s"
| "step (TimerFired t) s =
     (if t \<in> set (timers s) then previewTimer (clearTimeout t s) else s)"
| "step (PreviewSettled h r) s =
     (case request_of s h of
        Some (Req_preview a params) \<Rightarrow> previewTimer_resume r (settle h s)
      | _ \<Rightarrow> s)"
| "step (BaselineSettled h r) s =
     (case request_of s h of
        Some (Req_baseline a params k) \<Rightarrow>
          (case k of
             From_timer \<Rightarrow> previewTimer_finish (loadBeforeImage_resume r (settle h s))
           | From_toggle \<Rightarrow> compareToggle_finish (loadBeforeImage_resume r (settle h s)))
      | _ \<Rightarrow> s)"
| "step SelectAllClicked s = select_all_click s"
| "step ExportSelectedClicked s =
     (let selectedIds = map file_id (filter selected (files s))
      in if length selectedIds > 0 then startBatchExport selectedIds s else s)"
| "step ExportAllClicked s =
     (let allIds = map file_id (files s)
      in if length allIds > 0 then startBatchExport allIds s else s)"
| "step (BatchStartSettled h r) s =
     (case request_of s h of
        Some (Req_batch_start ids params name) \<Rightarrow> startBatchExport_resume r (settle h s)
      | _ \<Rightarrow> s)"
| "step (SseMessage h d) s = (if es_open h s then onmessage h d s else s)"
| "step (SseError h) s = (if es_open h s then onerror h s else s)"

text \<open>A run of events, first event first.\<close>

fun run :: "event list \<Rightarrow> app \<Rightarrow> app" where
  "run [] s = s"
| "run (e # es) s = run es (step e s)"

inductive reachable :: "app \<Rightarrow> bool" where
  reachable_init: "reachable init_app"
| reachable_step: "reachable s \<Longrightarrow> reachable (step e s)"

subsection \<open>Notions used in the statements\<close>


text \<open>The state after one file has been chosen and its upload has succeeded with the id
  \<open>f1\<close>: it is the active file, and the first debounce timeout (handle 1) is live.\<close>

definition one_file :: app where
  "one_file =
     run [FilesChosen [''a.raw''],
          UploadSettled 0
            (Replied True (Body \<lparr>u_file_id = ''f1'', u_filename = ''a.raw'', u_error = []\<rparr>))]
       init_app"

text \<open>The state after two files have been chosen together and uploaded with the ids \<open>f1\<close>
  and \<open>f2\<close>: the first is the active file.\<close>

definition two_files :: app where
  "two_files =
     run [FilesChosen [''a.raw'', ''b.raw''],
          UploadSettled 0
            (Replied True (Body \<lparr>u_file_id = ''f1'', u_filename = ''a.raw'', u_error = []\<rparr>)),
          UploadSettled 1
            (Replied True (Body \<lparr>u_file_id = ''f2'', u_filename = ''b.raw'', u_error = []\<rparr>))]
       init_app"

text \<open>The state after compare mode has been switched on for the file \<open>f1\<close> and the baseline
  request (handle 1) has been answered with an image.\<close>

definition baseline_cached :: app where
  "baseline_cached =
     run [CompareToggled True, BaselineSettled 1 (Replied True (Body ''blob:before''))] one_file"

text \<open>A snapshot is complete when every slider has a number in it.\<close>

definition complete_snapshot :: "obj \<Rightarrow> bool" where
  "complete_snapshot p =
     list_all (\<lambda>name. case map_of p name of Some (JNum v) \<Rightarrow> True | _ \<Rightarrow> False) sliders"

text \<open>The events that change the settings: an input on one of the sliders, and the arrival
  of a complete preset or defaults snapshot.\<close>

fun is_mutation :: "event \<Rightarrow> app \<Rightarrow> bool" where
  "is_mutation (SliderInput name v) s = (name \<in> set sliders)"
| "is_mutation (PresetSettled h (Replied ok (Body p))) s =
     (complete_snapshot p \<and>
      (case request_of s h of Some (Req_preset name) \<Rightarrow> True | _ \<Rightarrow> False))"
| "is_mutation e s = False"

fun all_mutations :: "event list \<Rightarrow> app \<Rightarrow> bool" where
  "all_mutations [] s = True"
| "all_mutations (e # es) s = (is_mutation e s \<and> all_mutations es (step e s))"

text \<open>What a mutation has written, read back from the settings: the slider's number under
  the slider's name, or the whole snapshot.\<close>

fun written_by :: "event \<Rightarrow> obj \<Rightarrow> bool" where
  "written_by (SliderInput name v) st = (map_of st name = Some (JNum v))"
| "written_by (PresetSettled h (Replied ok (Body p))) st = (st = p)"
| "written_by e st = False"



text \<open>A progress event is terminal when it carries an error or says that the job is done.\<close>

definition terminal :: "progress_event \<Rightarrow> bool" where
  "terminal d = (truthy (ev_error d) \<or> ev_done d)"

text \<open>The progress events of a run that reach the handler of the source \<open>h\<close>, in order.\<close>

fun handled :: "nat \<Rightarrow> event list \<Rightarrow> app \<Rightarrow> progress_event list" where
  "handled h [] s = []"
| "handled h (e # es) s =
     (case e of
        SseMessage h' d \<Rightarrow>
          if h' = h \<and> es_open h s then d # handled h es (step e s) else handled h es (step e s)
      | _ \<Rightarrow> handled h es (step e s))"

text \<open>At most one timeout is live; it is the one \<^verbatim>\<open>state.previewDebounce\<close> remembers, and
  its handle is older than the next handle \<^verbatim>\<open>setTimeout\<close> will give out.\<close>

definition timers_inv :: "app \<Rightarrow> bool" where
  "timers_inv s =
     (timers s = [] \<or>
      timers s = [the (previewDebounce s)] \<and> previewDebounce s \<noteq> None \<and>
      the (previewDebounce s) < next_timer s)"

text \<open>Sample data for the batch monitor: the state in which the export of the file \<open>f1\<close>
  has been started and the job \<open>b1\<close> has been created (its event source has the handle 0),
  a progress event, an error event, and the closing event of a job with one result.\<close>

definition job_running :: app where
  "job_running =
     run [ExportAllClicked, BatchStartSettled 1 (Replied True (Body (Some ''b1'')))] one_file"

definition progress_ev :: progress_event where
  "progress_ev = \<lparr>ev_error = None, ev_current = 0, ev_total = 1, ev_status = Some ''processing'',
                  ev_current_file = Some ''a.raw'', ev_done = False, ev_results = []\<rparr>"

definition error_ev :: progress_event where
  "error_ev = \<lparr>ev_error = Some ''disk full'', ev_current = 0, ev_total = 1, ev_status = None,
               ev_current_file = None, ev_done = True, ev_results = []\<rparr>"

definition done_ev :: progress_event where
  "done_ev = \<lparr>ev_error = None, ev_current = 1, ev_total = 1, ev_status = Some ''complete'',
              ev_current_file = None, ev_done = True,
              ev_results = [\<lparr>r_filename = ''a.jpg'', r_success = True,
                             r_download_url = Some ''/download/b1/a.jpg''\<rparr>]\<rparr>"

subsection \<open>What each service and each small handler leaves alone\<close>

lemma fetch_fields [simp]:
  "files (fetch r s) = files s"
  "activeFileId (fetch r s) = activeFileId s"
  "settings (fetch r s) = settings s"
  "previewDebounce (fetch r s) = previewDebounce s"
  "compareMode (fetch r s) = compareMode s"
  "beforeImageUrl (fetch r s) = beforeImageUrl s"
  "afterImageUrl (fetch r s) = afterImageUrl s"
  "previewImage_src (fetch r s) = previewImage_src s"
  "afterImage_src (fetch r s) = afterImage_src s"
  "beforeImage_src (fetch r s) = beforeImage_src s"
  "issued (fetch r s) = issued s @ [r]"
  "pending (fetch r s) = pending s @ [length (issued s)]"
  "timers (fetch r s) = timers s"
  "next_timer (fetch r s) = next_timer s"
  "sources (fetch r s) = sources s"
  "alerts (fetch r s) = alerts s"
  "console (fetch r s) = console s"
  "fileList_items (fetch r s) = fileList_items s"
  "progressSection_display (fetch r s) = progressSection_display s"
  "downloadSection_display (fetch r s) = downloadSection_display s"
  "downloadLinks (fetch r s) = downloadLinks s"
  "exportFilename_value (fetch r s) = exportFilename_value s"
  by (simp_all add: fetch_def)

lemma fetch_views [simp]:
  "es_open k (fetch r s) = es_open k s"
  "timers_inv (fetch r s) = timers_inv s"
  by (simp_all add: es_open_def timers_inv_def)

lemma settle_fields [simp]:
  "files (settle h s) = files s"
  "activeFileId (settle h s) = activeFileId s"
  "settings (settle h s) = settings s"
  "previewDebounce (settle h s) = previewDebounce s"
  "compareMode (settle h s) = compareMode s"
  "beforeImageUrl (settle h s) = beforeImageUrl s"
  "afterImageUrl (settle h s) = afterImageUrl s"
  "previewImage_src (settle h s) = previewImage_src s"
  "afterImage_src (settle h s) = afterImage_src s"
  "beforeImage_src (settle h s) = beforeImage_src s"
  "issued (settle h s) = issued s"
  "pending (settle h s) = removeAll h (pending s)"
  "timers (settle h s) = timers s"
  "next_timer (settle h s) = next_timer s"
  "sources (settle h s) = sources s"
  "alerts (settle h s) = alerts s"
  "console (settle h s) = console s"
  "fileList_items (settle h s) = fileList_items s"
  "progressSection_display (settle h s) = progressSection_display s"
  "downloadSection_display (settle h s) = downloadSection_display s"
  "downloadLinks (settle h s) = downloadLinks s"
  "exportFilename_value (settle h s) = exportFilename_value s"
  by (simp_all add: settle_def)

lemma settle_views [simp]:
  "es_open k (settle h s) = es_open k s"
  "timers_inv (settle h s) = timers_inv s"
  by (simp_all add: es_open_def timers_inv_def)

lemma clearTimeout_fields [simp]:
  "files (clearTimeout t s) = files s"
  "activeFileId (clearTimeout t s) = activeFileId s"
  "settings (clearTimeout t s) = settings s"
  "previewDebounce (clearTimeout t s) = previewDebounce s"
  "compareMode (clearTimeout t s) = compareMode s"
  "beforeImageUrl (clearTimeout t s) = beforeImageUrl s"
  "afterImageUrl (clearTimeout t s) = afterImageUrl s"
  "previewImage_src (clearTimeout t s) = previewImage_src s"
  "afterImage_src (clearTimeout t s) = afterImage_src s"
  "beforeImage_src (clearTimeout t s) = beforeImage_src s"
  "issued (clearTimeout t s) = issued s"
  "pending (clearTimeout t s) = pending s"
  "timers (clearTimeout t s) = removeAll t (timers s)"
  "next_timer (clearTimeout t s) = next_timer s"
  "sources (clearTimeout t s) = sources s"
  "alerts (clearTimeout t s) = alerts s"
  "console (clearTimeout t s) = console s"
  "fileList_items (clearTimeout t s) = fileList_items s"
  "progressSection_display (clearTimeout t s) = progressSection_display s"
  "downloadSection_display (clearTimeout t s) = downloadSection_display s"
  "downloadLinks (clearTimeout t s) = downloadLinks s"
  "exportFilename_value (clearTimeout t s) = exportFilename_value s"
  by (simp_all add: clearTimeout_def)

lemma clearTimeout_views [simp]:
  "es_open k (clearTimeout t s) = es_open k s"
  by (simp_all add: es_open_def timers_inv_def)

lemma alert_fields [simp]:
  "files (alert msg s) = files s"
  "activeFileId (alert msg s) = activeFileId s"
  "settings (alert msg s) = settings s"
  "previewDebounce (alert msg s) = previewDebounce s"
  "compareMode (alert msg s) = compareMode s"
  "beforeImageUrl (alert msg s) = beforeImageUrl s"
  "afterImageUrl (alert msg s) = afterImageUrl s"
  "previewImage_src (alert msg s) = previewImage_src s"
  "afterImage_src (alert msg s) = afterImage_src s"
  "beforeImage_src (alert msg s) = beforeImage_src s"
  "issued (alert msg s) = issued s"
  "pending (alert msg s) = pending s"
  "timers (alert msg s) = timers s"
  "next_timer (alert msg s) = next_timer s"
  "sources (alert msg s) = sources s"
  "alerts (alert msg s) = alerts s @ [msg]"
  "console (alert msg s) = console s"
  "fileList_items (alert msg s) = fileList_items s"
  "progressSection_display (alert msg s) = progressSection_display s"
  "downloadSection_display (alert msg s) = downloadSection_display s"
  "downloadLinks (alert msg s) = downloadLinks s"
  "exportFilename_value (alert msg s) = exportFilename_value s"
  by (simp_all add: alert_def)

lemma alert_views [simp]:
  "es_open k (alert msg s) = es_open k s"
  "timers_inv (alert msg s) = timers_inv s"
  by (simp_all add: es_open_def timers_inv_def)

lemma console_error_fields [simp]:
  "files (console_error msg s) = files s"
  "activeFileId (console_error msg s) = activeFileId s"
  "settings (console_error msg s) = settings s"
  "previewDebounce (console_error msg s) = previewDebounce s"
  "compareMode (console_error msg s) = compareMode s"
  "beforeImageUrl (console_error msg s) = beforeImageUrl s"
  "afterImageUrl (console_error msg s) = afterImageUrl s"
  "previewImage_src (console_error msg s) = previewImage_src s"
  "afterImage_src (console_error msg s) = afterImage_src s"
  "beforeImage_src (console_error msg s) = beforeImage_src s"
  "issued (console_error msg s) = issued s"
  "pending (console_error msg s) = pending s"
  "timers (console_error msg s) = timers s"
  "next_timer (console_error msg s) = next_timer s"
  "sources (console_error msg s) = sources s"
  "alerts (console_error msg s) = alerts s"
  "console (console_error msg s) = console s @ [msg]"
  "fileList_items (console_error msg s) = fileList_items s"
  "progressSection_display (console_error msg s) = progressSection_display s"
  "downloadSection_display (console_error msg s) = downloadSection_display s"
  "downloadLinks (console_error msg s) = downloadLinks s"
  "exportFilename_value (console_error msg s) = exportFilename_value s"
  by (simp_all add: console_error_def)

lemma console_error_views [simp]:
  "es_open k (console_error msg s) = es_open k s"
  "timers_inv (console_error msg s) = timers_inv s"
  by (simp_all add: es_open_def timers_inv_def)

lemma es_close_fields [simp]:
  "files (es_close h s) = files s"
  "activeFileId (es_close h s) = activeFileId s"
  "settings (es_close h s) = settings s"
  "previewDebounce (es_close h s) = previewDebounce s"
  "compareMode (es_close h s) = compareMode s"
  "beforeImageUrl (es_close h s) = beforeImageUrl s"
  "afterImageUrl (es_close h s) = afterImageUrl s"
  "previewImage_src (es_close h s) = previewImage_src s"
  "afterImage_src (es_close h s) = afterImage_src s"
  "beforeImage_src (es_close h s) = beforeImage_src s"
  "issued (es_close h s) = issued s"
  "pending (es_close h s) = pending s"
  "timers (es_close h s) = timers s"
  "next_timer (es_close h s) = next_timer s"
  "alerts (es_close h s) = alerts s"
  "console (es_close h s) = console s"
  "fileList_items (es_close h s) = fileList_items s"
  "progressSection_display (es_close h s) = progressSection_display s"
  "downloadSection_display (es_close h s) = downloadSection_display s"
  "downloadLinks (es_close h s) = downloadLinks s"
  "exportFilename_value (es_close h s) = exportFilename_value s"
  by (simp_all add: es_close_def)

lemma es_close_views [simp]:
  "timers_inv (es_close h s) = timers_inv s"
  by (simp_all add: es_open_def timers_inv_def)

lemma updateFileList_fields [simp]:
  "files (updateFileList s) = files s"
  "activeFileId (updateFileList s) = activeFileId s"
  "settings (updateFileList s) = settings s"
  "previewDebounce (updateFileList s) = previewDebounce s"
  "compareMode (updateFileList s) = compareMode s"
  "beforeImageUrl (updateFileList s) = beforeImageUrl s"
  "afterImageUrl (updateFileList s) = afterImageUrl s"
  "previewImage_src (updateFileList s) = previewImage_src s"
  "afterImage_src (updateFileList s) = afterImage_src s"
  "beforeImage_src (updateFileList s) = beforeImage_src s"
  "issued (updateFileList s) = issued s"
  "pending (updateFileList s) = pending s"
  "timers (updateFileList s) = timers s"
  "next_timer (updateFileList s) = next_timer s"
  "sources (updateFileList s) = sources s"
  "alerts (updateFileList s) = alerts s"
  "console (updateFileList s) = console s"
  "fileList_items (updateFileList s) = map file_id (files s)"
  "progressSection_display (updateFileList s) = progressSection_display s"
  "downloadSection_display (updateFileList s) = downloadSection_display s"
  "downloadLinks (updateFileList s) = downloadLinks s"
  "exportFilename_value (updateFileList s) = exportFilename_value s"
  by (simp_all add: updateFileList_def)

lemma updateFileList_views [simp]:
  "es_open k (updateFileList s) = es_open k s"
  "timers_inv (updateFileList s) = timers_inv s"
  by (simp_all add: es_open_def timers_inv_def)

lemma updateUI_fields [simp]:
  "files (updateUI s) = files s"
  "activeFileId (updateUI s) = activeFileId s"
  "settings (updateUI s) = settings s"
  "previewDebounce (updateUI s) = previewDebounce s"
  "compareMode (updateUI s) = compareMode s"
  "beforeImageUrl (updateUI s) = beforeImageUrl s"
  "afterImageUrl (updateUI s) = afterImageUrl s"
  "previewImage_src (updateUI s) = previewImage_src s"
  "afterImage_src (updateUI s) = afterImage_src s"
  "beforeImage_src (updateUI s) = beforeImage_src s"
  "issued (updateUI s) = issued s"
  "pending (updateUI s) = pending s"
  "timers (updateUI s) = timers s"
  "next_timer (updateUI s) = next_timer s"
  "sources (updateUI s) = sources s"
  "alerts (updateUI s) = alerts s"
  "console (updateUI s) = console s"
  "fileList_items (updateUI s) = map file_id (files s)"
  "progressSection_display (updateUI s) = progressSection_display s"
  "downloadSection_display (updateUI s) = downloadSection_display s"
  "downloadLinks (updateUI s) = downloadLinks s"
  "exportFilename_value (updateUI s) = exportFilename_value s"
  by (simp_all add: updateUI_def updateFileList_def Let_def)

lemma updateUI_views [simp]:
  "es_open k (updateUI s) = es_open k s"
  "timers_inv (updateUI s) = timers_inv s"
  by (simp_all add: es_open_def timers_inv_def)

lemma showPreviewLoading_fields [simp]:
  "files (showPreviewLoading b s) = files s"
  "activeFileId (showPreviewLoading b s) = activeFileId s"
  "settings (showPreviewLoading b s) = settings s"
  "previewDebounce (showPreviewLoading b s) = previewDebounce s"
  "compareMode (showPreviewLoading b s) = compareMode s"
  "beforeImageUrl (showPreviewLoading b s) = beforeImageUrl s"
  "afterImageUrl (showPreviewLoading b s) = afterImageUrl s"
  "previewImage_src (showPreviewLoading b s) = previewImage_src s"
  "afterImage_src (showPreviewLoading b s) = afterImage_src s"
  "beforeImage_src (showPreviewLoading b s) = beforeImage_src s"
  "issued (showPreviewLoading b s) = issued s"
  "pending (showPreviewLoading b s) = pending s"
  "timers (showPreviewLoading b s) = timers s"
  "next_timer (showPreviewLoading b s) = next_timer s"
  "sources (showPreviewLoading b s) = sources s"
  "alerts (showPreviewLoading b s) = alerts s"
  "console (showPreviewLoading b s) = console s"
  "fileList_items (showPreviewLoading b s) = fileList_items s"
  "progressSection_display (showPreviewLoading b s) = progressSection_display s"
  "downloadSection_display (showPreviewLoading b s) = downloadSection_display s"
  "downloadLinks (showPreviewLoading b s) = downloadLinks s"
  "exportFilename_value (showPreviewLoading b s) = exportFilename_value s"
  by (simp_all add: showPreviewLoading_def)

lemma showPreviewLoading_views [simp]:
  "es_open k (showPreviewLoading b s) = es_open k s"
  "timers_inv (showPreviewLoading b s) = timers_inv s"
  by (simp_all add: es_open_def timers_inv_def)

lemma updateComparisonView_fields [simp]:
  "files (updateComparisonView s) = files s"
  "activeFileId (updateComparisonView s) = activeFileId s"
  "settings (updateComparisonView s) = settings s"
  "previewDebounce (updateComparisonView s) = previewDebounce s"
  "compareMode (updateComparisonView s) = compareMode s"
  "beforeImageUrl (updateComparisonView s) = beforeImageUrl s"
  "afterImageUrl (updateComparisonView s) = afterImageUrl s"
  "previewImage_src (updateComparisonView s) = previewImage_src s"
  "afterImage_src (updateComparisonView s) = afterImage_src s"
  "beforeImage_src (updateComparisonView s) = beforeImage_src s"
  "issued (updateComparisonView s) = issued s"
  "pending (updateComparisonView s) = pending s"
  "timers (updateComparisonView s) = timers s"
  "next_timer (updateComparisonView s) = next_timer s"
  "sources (updateComparisonView s) = sources s"
  "alerts (updateComparisonView s) = alerts s"
  "console (updateComparisonView s) = console s"
  "fileList_items (updateComparisonView s) = fileList_items s"
  "progressSection_display (updateComparisonView s) = progressSection_display s"
  "downloadSection_display (updateComparisonView s) = downloadSection_display s"
  "downloadLinks (updateComparisonView s) = downloadLinks s"
  "exportFilename_value (updateComparisonView s) = exportFilename_value s"
  by (simp_all add: updateComparisonView_def Let_def)

lemma updateComparisonView_views [simp]:
  "es_open k (updateComparisonView s) = es_open k s"
  "timers_inv (updateComparisonView s) = timers_inv s"
  by (simp_all add: es_open_def timers_inv_def)

lemma monitorBatchProgress_fields [simp]:
  "files (monitorBatchProgress k s) = files s"
  "activeFileId (monitorBatchProgress k s) = activeFileId s"
  "settings (monitorBatchProgress k s) = settings s"
  "previewDebounce (monitorBatchProgress k s) = previewDebounce s"
  "compareMode (monitorBatchProgress k s) = compareMode s"
  "beforeImageUrl (monitorBatchProgress k s) = beforeImageUrl s"
  "afterImageUrl (monitorBatchProgress k s) = afterImageUrl s"
  "previewImage_src (monitorBatchProgress k s) = previewImage_src s"
  "afterImage_src (monitorBatchProgress k s) = afterImage_src s"
  "beforeImage_src (monitorBatchProgress k s) = beforeImage_src s"
  "issued (monitorBatchProgress k s) = issued s"
  "pending (monitorBatchProgress k s) = pending s"
  "timers (monitorBatchProgress k s) = timers s"
  "next_timer (monitorBatchProgress k s) = next_timer s"
  "sources (monitorBatchProgress k s) = sources s @ [(k, True)]"
  "alerts (monitorBatchProgress k s) = alerts s"
  "console (monitorBatchProgress k s) = console s"
  "fileList_items (monitorBatchProgress k s) = fileList_items s"
  "progressSection_display (monitorBatchProgress k s) = progressSection_display s"
  "downloadSection_display (monitorBatchProgress k s) = downloadSection_display s"
  "downloadLinks (monitorBatchProgress k s) = downloadLinks s"
  "exportFilename_value (monitorBatchProgress k s) = exportFilename_value s"
  by (simp_all add: monitorBatchProgress_def)

lemma monitorBatchProgress_views [simp]:
  "timers_inv (monitorBatchProgress k s) = timers_inv s"
  by (simp_all add: es_open_def timers_inv_def)

lemma showDownloadResults_fields [simp]:
  "files (showDownloadResults rs s) = files s"
  "activeFileId (showDownloadResults rs s) = activeFileId s"
  "settings (showDownloadResults rs s) = settings s"
  "previewDebounce (showDownloadResults rs s) = previewDebounce s"
  "compareMode (showDownloadResults rs s) = compareMode s"
  "beforeImageUrl (showDownloadResults rs s) = beforeImageUrl s"
  "afterImageUrl (showDownloadResults rs s) = afterImageUrl s"
  "previewImage_src (showDownloadResults rs s) = previewImage_src s"
  "afterImage_src (showDownloadResults rs s) = afterImage_src s"
  "beforeImage_src (showDownloadResults rs s) = beforeImage_src s"
  "issued (showDownloadResults rs s) = issued s"
  "pending (showDownloadResults rs s) = pending s"
  "timers (showDownloadResults rs s) = timers s"
  "next_timer (showDownloadResults rs s) = next_timer s"
  "sources (showDownloadResults rs s) = sources s"
  "alerts (showDownloadResults rs s) = alerts s"
  "console (showDownloadResults rs s) = console s"
  "fileList_items (showDownloadResults rs s) = fileList_items s"
  "progressSection_display (showDownloadResults rs s) = progressSection_display s"
  "downloadSection_display (showDownloadResults rs s) = D_block"
  "downloadLinks (showDownloadResults rs s) = rs"
  "exportFilename_value (showDownloadResults rs s) = exportFilename_value s"
  by (simp_all add: showDownloadResults_def)

lemma showDownloadResults_views [simp]:
  "es_open k (showDownloadResults rs s) = es_open k s"
  "timers_inv (showDownloadResults rs s) = timers_inv s"
  by (simp_all add: es_open_def timers_inv_def)

lemma updatePreview_fields [simp]:
  "files (updatePreview s) = files s"
  "activeFileId (updatePreview s) = activeFileId s"
  "settings (updatePreview s) = settings s"
  "compareMode (updatePreview s) = compareMode s"
  "beforeImageUrl (updatePreview s) = beforeImageUrl s"
  "afterImageUrl (updatePreview s) = afterImageUrl s"
  "previewImage_src (updatePreview s) = previewImage_src s"
  "afterImage_src (updatePreview s) = afterImage_src s"
  "beforeImage_src (updatePreview s) = beforeImage_src s"
  "issued (updatePreview s) = issued s"
  "pending (updatePreview s) = pending s"
  "sources (updatePreview s) = sources s"
  "alerts (updatePreview s) = alerts s"
  "console (updatePreview s) = console s"
  "fileList_items (updatePreview s) = fileList_items s"
  "progressSection_display (updatePreview s) = progressSection_display s"
  "downloadSection_display (updatePreview s) = downloadSection_display s"
  "downloadLinks (updatePreview s) = downloadLinks s"
  "exportFilename_value (updatePreview s) = exportFilename_value s"
  by (simp_all add: updatePreview_def setTimeout_def clearTimeout_def Let_def split: option.splits)

lemma updatePreview_views [simp]:
  "es_open k (updatePreview s) = es_open k s"
  by (simp_all add: es_open_def timers_inv_def)

lemma es_close_open [simp]:
  "length (sources (es_close h s)) = length (sources s)"
  "es_open k (es_close h s) = (k \<noteq> h \<and> es_open k s)"
  by (auto simp: es_close_def es_open_def nth_list_update)

lemma es_open_monitor [simp]:
  "es_open k (monitorBatchProgress b s) = (es_open k s \<or> k = length (sources s))"
  by (auto simp: es_open_def nth_append)

lemma updatePreview_timers [simp]:
  "timers (updatePreview s) =
     (if truthy (activeFileId s)
      then (case previewDebounce s of None \<Rightarrow> timers s | Some t \<Rightarrow> removeAll t (timers s)) @ [next_timer s]
      else timers s)"
  "previewDebounce (updatePreview s) =
     (if truthy (activeFileId s) then Some (next_timer s) else previewDebounce s)"
  "next_timer (updatePreview s) = (if truthy (activeFileId s) then Suc (next_timer s) else next_timer s)"
  by (simp_all add: updatePreview_def setTimeout_def clearTimeout_def Let_def split: option.splits)

lemma map_of_obj_put: "map_of (obj_put k v al) = (map_of al)(k \<mapsto> v)"
  by (induction al) auto

lemma updateSliders_frame:
  "updateSlidersFromSettings names s = Inr s' \<or> updateSlidersFromSettings names s = Inl s' \<Longrightarrow>
   \<exists>sv vd. s' = s\<lparr>slider_value := sv, valueDisplay := vd\<rparr>"
proof (induction names arbitrary: s)
  case Nil
  then have "s' = s\<lparr>slider_value := slider_value s, valueDisplay := valueDisplay s\<rparr>" by simp
  then show ?case by blast
next
  case (Cons name names)
  have stop: "\<exists>sv vd. s' = s\<lparr>slider_value := sv, valueDisplay := vd\<rparr>"
    if "s' = s\<lparr>slider_value := x\<rparr>" for x
  proof -
    from that have "s' = s\<lparr>slider_value := x, valueDisplay := valueDisplay s\<rparr>" by simp
    then show ?thesis by blast
  qed
  show ?case
  proof (cases "map_of (settings s) name")
    case None
    with Cons.prems have "s' = s\<lparr>slider_value := obj_put name None (slider_value s)\<rparr>"
      by (auto simp: Let_def)
    then show ?thesis by (rule stop)
  next
    case (Some j)
    show ?thesis
    proof (cases j)
      case (JNum v)
      with Cons.prems Some
      have "updateSlidersFromSettings names
              (s\<lparr>slider_value := obj_put name (Some (JNum v)) (slider_value s),
                 valueDisplay := obj_put name v (valueDisplay s)\<rparr>) = Inr s' \<or>
            updateSlidersFromSettings names
              (s\<lparr>slider_value := obj_put name (Some (JNum v)) (slider_value s),
                 valueDisplay := obj_put name v (valueDisplay s)\<rparr>) = Inl s'"
        by (simp add: Let_def)
      from Cons.IH[OF this] obtain sv vd
        where "s' = s\<lparr>slider_value := obj_put name (Some (JNum v)) (slider_value s),
                        valueDisplay := obj_put name v (valueDisplay s)\<rparr>
                     \<lparr>slider_value := sv, valueDisplay := vd\<rparr>"
        by blast
      then have "s' = s\<lparr>slider_value := sv, valueDisplay := vd\<rparr>" by simp
      then show ?thesis by blast
    next
      case (JStr x)
      with Cons.prems Some have "s' = s\<lparr>slider_value := obj_put name (Some (JStr x)) (slider_value s)\<rparr>"
        by (auto simp: Let_def)
      then show ?thesis by (rule stop)
    next
      case JNull
      with Cons.prems Some have "s' = s\<lparr>slider_value := obj_put name (Some JNull) (slider_value s)\<rparr>"
        by (auto simp: Let_def)
      then show ?thesis by (rule stop)
    qed
  qed
qed

text \<open>The preset handlers, seen through the controls they write: the snapshot replaces the
  settings in one assignment; then either the debounce is restarted or, when a control
  could not be written, the failure is logged.\<close>

lemma preset_resume_Body:
  "\<exists>sv vd. preset_resume what (Replied ok (Body p)) s =
             updatePreview (s\<lparr>settings := p, slider_value := sv, valueDisplay := vd\<rparr>) \<or>
           preset_resume what (Replied ok (Body p)) s =
             console_error what (s\<lparr>settings := p, slider_value := sv, valueDisplay := vd\<rparr>)"
proof (cases "updateSlidersFromSettings sliders (s\<lparr>settings := p\<rparr>)")
  case (Inl s1)
  then obtain sv vd where "s1 = s\<lparr>settings := p\<rparr>\<lparr>slider_value := sv, valueDisplay := vd\<rparr>"
    using updateSliders_frame by blast
  with Inl have "preset_resume what (Replied ok (Body p)) s =
             console_error what (s\<lparr>settings := p, slider_value := sv, valueDisplay := vd\<rparr>)"
    by (simp add: preset_resume_def)
  then show ?thesis by blast
next
  case (Inr s1)
  then obtain sv vd where "s1 = s\<lparr>settings := p\<rparr>\<lparr>slider_value := sv, valueDisplay := vd\<rparr>"
    using updateSliders_frame by blast
  with Inr have "preset_resume what (Replied ok (Body p)) s =
             updatePreview (s\<lparr>settings := p, slider_value := sv, valueDisplay := vd\<rparr>)"
    by (simp add: preset_resume_def)
  then show ?thesis by blast
qed

lemma updateSliders_complete:
  "list_all (\<lambda>name. case map_of (settings s) name of Some (JNum v) \<Rightarrow> True | _ \<Rightarrow> False) names \<Longrightarrow>
   \<exists>s'. updateSlidersFromSettings names s = Inr s'"
  by (induction names arbitrary: s) (auto simp: Let_def split: option.splits jv.splits)

lemma preset_resume_complete:
  assumes "complete_snapshot p"
  shows "\<exists>sv vd. preset_resume what (Replied ok (Body p)) s =
             updatePreview (s\<lparr>settings := p, slider_value := sv, valueDisplay := vd\<rparr>)"
proof -
  from assms obtain s1 where s1: "updateSlidersFromSettings sliders (s\<lparr>settings := p\<rparr>) = Inr s1"
    using updateSliders_complete[of "s\<lparr>settings := p\<rparr>" sliders] by (auto simp: complete_snapshot_def)
  then obtain sv vd where "s1 = s\<lparr>settings := p\<rparr>\<lparr>slider_value := sv, valueDisplay := vd\<rparr>"
    using updateSliders_frame by blast
  with s1 have "preset_resume what (Replied ok (Body p)) s =
             updatePreview (s\<lparr>settings := p, slider_value := sv, valueDisplay := vd\<rparr>)"
    by (simp add: preset_resume_def)
  then show ?thesis by blast
qed

subsection \<open>Evaluating concrete runs\<close>

lemmas browser_defs = truthy_def fetch_def settle_def request_of_def setTimeout_def clearTimeout_def
  alert_def console_error_def es_close_def es_open_def

lemmas handler_defs = updateFileList_def updateUI_def showPreviewLoading_def
  updateComparisonView_def updatePreview_def loadBeforeImage_def loadBeforeImage_resume_def
  previewTimer_def previewTimer_finish_def previewTimer_resume_def selectFile_def handleFiles_def
  uploadFile_resume_def compareToggle_change_def compareToggle_finish_def slider_input_def
  preset_resume_def preset_message_def select_all_click_def checkbox_change_def
  getCustomFilename_def startBatchExport_def monitorBatchProgress_def startBatchExport_resume_def
  showDownloadResults_def onmessage_def onerror_def deleteFile_def deleteFile_resume_def

text \<open>Trimming the empty text, and a text with a no-break space in front and a space and a
  line separator behind.\<close>

lemma trim_Nil: "trim [] = []"
  by (simp add: trim_def white_space_def strip.simps)

lemma trim_no_break_space:
  "trim [CHR 0xC2, CHR 0xA0, CHR ''a'', CHR '' '', CHR ''b'', CHR 0x20, CHR 0xE2, CHR 0x80, CHR 0xA8]
     = ''a b''"
  by (simp add: trim_def white_space_def strip.simps)

lemmas eval_defs = one_file_def two_files_def baseline_cached_def job_running_def progress_ev_def
  error_ev_def done_ev_def init_app_def defaultSettings_def sliders_def trim_Nil plain_def
  has_item_def browser_defs handler_defs Let_def

lemma reachable_run: "reachable s \<Longrightarrow> reachable (run es s)"
  by (induction es arbitrary: s) (simp_all add: reachable_step)

lemma reachable_one_file: "reachable one_file"
  unfolding one_file_def by (rule reachable_run) (rule reachable_init)

subsection \<open>What each handler leaves alone\<close>

lemma preset_resume_cases:
  "preset_resume what r s = console_error what s \<or>
   (\<exists>p sv vd. preset_resume what r s =
       updatePreview (s\<lparr>settings := p, slider_value := sv, valueDisplay := vd\<rparr>)) \<or>
   (\<exists>p sv vd. preset_resume what r s =
       console_error what (s\<lparr>settings := p, slider_value := sv, valueDisplay := vd\<rparr>))"
proof (cases r)
  case (Rejected msg)
  then show ?thesis by (simp add: preset_resume_def)
next
  case (Replied ok b)
  show ?thesis
  proof (cases b)
    case (Unreadable msg)
    with Replied show ?thesis by (simp add: preset_resume_def)
  next
    case (Body p)
    show ?thesis unfolding Replied Body using preset_resume_Body[of what ok p s] by blast
  qed
qed

lemma selectFile_fields [simp]:
  "files (selectFile f s) = files s"
  "settings (selectFile f s) = settings s"
  "compareMode (selectFile f s) = compareMode s"
  "afterImageUrl (selectFile f s) = afterImageUrl s"
  "previewImage_src (selectFile f s) = previewImage_src s"
  "afterImage_src (selectFile f s) = afterImage_src s"
  "beforeImage_src (selectFile f s) = beforeImage_src s"
  "issued (selectFile f s) = issued s"
  "pending (selectFile f s) = pending s"
  "sources (selectFile f s) = sources s"
  "alerts (selectFile f s) = alerts s"
  "console (selectFile f s) = console s"
  "progressSection_display (selectFile f s) = progressSection_display s"
  "downloadSection_display (selectFile f s) = downloadSection_display s"
  "downloadLinks (selectFile f s) = downloadLinks s"
  "exportFilename_value (selectFile f s) = exportFilename_value s"
  by (simp_all add: selectFile_def split: reply.splits body.splits option.splits list.splits)

lemma selectFile_views [simp]:
  "es_open k (selectFile f s) = es_open k s"
  by (simp_all add: es_open_def timers_inv_def)

lemma handleFiles_fields [simp]:
  "files (handleFiles fs s) = files s"
  "activeFileId (handleFiles fs s) = activeFileId s"
  "settings (handleFiles fs s) = settings s"
  "previewDebounce (handleFiles fs s) = previewDebounce s"
  "compareMode (handleFiles fs s) = compareMode s"
  "beforeImageUrl (handleFiles fs s) = beforeImageUrl s"
  "afterImageUrl (handleFiles fs s) = afterImageUrl s"
  "previewImage_src (handleFiles fs s) = previewImage_src s"
  "afterImage_src (handleFiles fs s) = afterImage_src s"
  "beforeImage_src (handleFiles fs s) = beforeImage_src s"
  "timers (handleFiles fs s) = timers s"
  "next_timer (handleFiles fs s) = next_timer s"
  "sources (handleFiles fs s) = sources s"
  "alerts (handleFiles fs s) = alerts s"
  "console (handleFiles fs s) = console s"
  "progressSection_display (handleFiles fs s) = progressSection_display s"
  "downloadSection_display (handleFiles fs s) = downloadSection_display s"
  "downloadLinks (handleFiles fs s) = downloadLinks s"
  "exportFilename_value (handleFiles fs s) = exportFilename_value s"
  by (simp_all add: handleFiles_def split: reply.splits body.splits option.splits list.splits)

lemma handleFiles_views [simp]:
  "es_open k (handleFiles fs s) = es_open k s"
  "timers_inv (handleFiles fs s) = timers_inv s"
  by (simp_all add: es_open_def timers_inv_def)

lemma uploadFile_resume_fields [simp]:
  "settings (uploadFile_resume r s) = settings s"
  "compareMode (uploadFile_resume r s) = compareMode s"
  "afterImageUrl (uploadFile_resume r s) = afterImageUrl s"
  "previewImage_src (uploadFile_resume r s) = previewImage_src s"
  "afterImage_src (uploadFile_resume r s) = afterImage_src s"
  "beforeImage_src (uploadFile_resume r s) = beforeImage_src s"
  "issued (uploadFile_resume r s) = issued s"
  "pending (uploadFile_resume r s) = pending s"
  "sources (uploadFile_resume r s) = sources s"
  "console (uploadFile_resume r s) = console s"
  "progressSection_display (uploadFile_resume r s) = progressSection_display s"
  "downloadSection_display (uploadFile_resume r s) = downloadSection_display s"
  "downloadLinks (uploadFile_resume r s) = downloadLinks s"
  "exportFilename_value (uploadFile_resume r s) = exportFilename_value s"
  by (simp_all add: uploadFile_resume_def Let_def split: reply.splits body.splits option.splits list.splits)

lemma uploadFile_resume_views [simp]:
  "es_open k (uploadFile_resume r s) = es_open k s"
  by (simp_all add: es_open_def timers_inv_def)

lemma loadBeforeImage_resume_fields [simp]:
  "files (loadBeforeImage_resume r s) = files s"
  "activeFileId (loadBeforeImage_resume r s) = activeFileId s"
  "settings (loadBeforeImage_resume r s) = settings s"
  "previewDebounce (loadBeforeImage_resume r s) = previewDebounce s"
  "compareMode (loadBeforeImage_resume r s) = compareMode s"
  "afterImageUrl (loadBeforeImage_resume r s) = afterImageUrl s"
  "previewImage_src (loadBeforeImage_resume r s) = previewImage_src s"
  "afterImage_src (loadBeforeImage_resume r s) = afterImage_src s"
  "issued (loadBeforeImage_resume r s) = issued s"
  "pending (loadBeforeImage_resume r s) = pending s"
  "timers (loadBeforeImage_resume r s) = timers s"
  "next_timer (loadBeforeImage_resume r s) = next_timer s"
  "sources (loadBeforeImage_resume r s) = sources s"
  "alerts (loadBeforeImage_resume r s) = alerts s"
  "fileList_items (loadBeforeImage_resume r s) = fileList_items s"
  "progressSection_display (loadBeforeImage_resume r s) = progressSection_display s"
  "downloadSection_display (loadBeforeImage_resume r s) = downloadSection_display s"
  "downloadLinks (loadBeforeImage_resume r s) = downloadLinks s"
  "exportFilename_value (loadBeforeImage_resume r s) = exportFilename_value s"
  by (simp_all add: loadBeforeImage_resume_def split: reply.splits body.splits option.splits list.splits)

lemma loadBeforeImage_resume_views [simp]:
  "es_open k (loadBeforeImage_resume r s) = es_open k s"
  "timers_inv (loadBeforeImage_resume r s) = timers_inv s"
  by (simp_all add: es_open_def timers_inv_def)

lemma previewTimer_fields [simp]:
  "files (previewTimer s) = files s"
  "activeFileId (previewTimer s) = activeFileId s"
  "settings (previewTimer s) = settings s"
  "previewDebounce (previewTimer s) = previewDebounce s"
  "compareMode (previewTimer s) = compareMode s"
  "beforeImageUrl (previewTimer s) = beforeImageUrl s"
  "afterImageUrl (previewTimer s) = afterImageUrl s"
  "previewImage_src (previewTimer s) = previewImage_src s"
  "afterImage_src (previewTimer s) = afterImage_src s"
  "beforeImage_src (previewTimer s) = beforeImage_src s"
  "timers (previewTimer s) = timers s"
  "next_timer (previewTimer s) = next_timer s"
  "sources (previewTimer s) = sources s"
  "alerts (previewTimer s) = alerts s"
  "console (previewTimer s) = console s"
  "fileList_items (previewTimer s) = fileList_items s"
  "progressSection_display (previewTimer s) = progressSection_display s"
  "downloadSection_display (previewTimer s) = downloadSection_display s"
  "downloadLinks (previewTimer s) = downloadLinks s"
  "exportFilename_value (previewTimer s) = exportFilename_value s"
  by (simp_all add: previewTimer_def Let_def split: reply.splits body.splits option.splits list.splits)

lemma previewTimer_views [simp]:
  "es_open k (previewTimer s) = es_open k s"
  "timers_inv (previewTimer s) = timers_inv s"
  by (simp_all add: es_open_def timers_inv_def)

lemma previewTimer_finish_fields [simp]:
  "files (previewTimer_finish s) = files s"
  "activeFileId (previewTimer_finish s) = activeFileId s"
  "settings (previewTimer_finish s) = settings s"
  "previewDebounce (previewTimer_finish s) = previewDebounce s"
  "compareMode (previewTimer_finish s) = compareMode s"
  "beforeImageUrl (previewTimer_finish s) = beforeImageUrl s"
  "afterImageUrl (previewTimer_finish s) = afterImageUrl s"
  "previewImage_src (previewTimer_finish s) = previewImage_src s"
  "afterImage_src (previewTimer_finish s) = afterImage_src s"
  "beforeImage_src (previewTimer_finish s) = beforeImage_src s"
  "issued (previewTimer_finish s) = issued s"
  "pending (previewTimer_finish s) = pending s"
  "timers (previewTimer_finish s) = timers s"
  "next_timer (previewTimer_finish s) = next_timer s"
  "sources (previewTimer_finish s) = sources s"
  "alerts (previewTimer_finish s) = alerts s"
  "console (previewTimer_finish s) = console s"
  "fileList_items (previewTimer_finish s) = fileList_items s"
  "progressSection_display (previewTimer_finish s) = progressSection_display s"
  "downloadSection_display (previewTimer_finish s) = downloadSection_display s"
  "downloadLinks (previewTimer_finish s) = downloadLinks s"
  "exportFilename_value (previewTimer_finish s) = exportFilename_value s"
  by (simp_all add: previewTimer_finish_def split: reply.splits body.splits option.splits list.splits)

lemma previewTimer_finish_views [simp]:
  "es_open k (previewTimer_finish s) = es_open k s"
  "timers_inv (previewTimer_finish s) = timers_inv s"
  by (simp_all add: es_open_def timers_inv_def)

lemma previewTimer_resume_fields [simp]:
  "files (previewTimer_resume r s) = files s"
  "activeFileId (previewTimer_resume r s) = activeFileId s"
  "settings (previewTimer_resume r s) = settings s"
  "previewDebounce (previewTimer_resume r s) = previewDebounce s"
  "compareMode (previewTimer_resume r s) = compareMode s"
  "beforeImageUrl (previewTimer_resume r s) = beforeImageUrl s"
  "beforeImage_src (previewTimer_resume r s) = beforeImage_src s"
  "timers (previewTimer_resume r s) = timers s"
  "next_timer (previewTimer_resume r s) = next_timer s"
  "sources (previewTimer_resume r s) = sources s"
  "alerts (previewTimer_resume r s) = alerts s"
  "fileList_items (previewTimer_resume r s) = fileList_items s"
  "progressSection_display (previewTimer_resume r s) = progressSection_display s"
  "downloadSection_display (previewTimer_resume r s) = downloadSection_display s"
  "downloadLinks (previewTimer_resume r s) = downloadLinks s"
  "exportFilename_value (previewTimer_resume r s) = exportFilename_value s"
  by (simp_all add: previewTimer_resume_def loadBeforeImage_def Let_def split: reply.splits body.splits option.splits list.splits)

lemma previewTimer_resume_views [simp]:
  "es_open k (previewTimer_resume r s) = es_open k s"
  "timers_inv (previewTimer_resume r s) = timers_inv s"
  by (simp_all add: es_open_def timers_inv_def)

lemma compareToggle_change_fields [simp]:
  "files (compareToggle_change c s) = files s"
  "activeFileId (compareToggle_change c s) = activeFileId s"
  "settings (compareToggle_change c s) = settings s"
  "previewDebounce (compareToggle_change c s) = previewDebounce s"
  "beforeImageUrl (compareToggle_change c s) = beforeImageUrl s"
  "afterImageUrl (compareToggle_change c s) = afterImageUrl s"
  "previewImage_src (compareToggle_change c s) = previewImage_src s"
  "afterImage_src (compareToggle_change c s) = afterImage_src s"
  "beforeImage_src (compareToggle_change c s) = beforeImage_src s"
  "timers (compareToggle_change c s) = timers s"
  "next_timer (compareToggle_change c s) = next_timer s"
  "sources (compareToggle_change c s) = sources s"
  "alerts (compareToggle_change c s) = alerts s"
  "console (compareToggle_change c s) = console s"
  "fileList_items (compareToggle_change c s) = fileList_items s"
  "progressSection_display (compareToggle_change c s) = progressSection_display s"
  "downloadSection_display (compareToggle_change c s) = downloadSection_display s"
  "downloadLinks (compareToggle_change c s) = downloadLinks s"
  "exportFilename_value (compareToggle_change c s) = exportFilename_value s"
  by (simp_all add: compareToggle_change_def loadBeforeImage_def Let_def split: reply.splits body.splits option.splits list.splits)

lemma compareToggle_change_views [simp]:
  "es_open k (compareToggle_change c s) = es_open k s"
  "timers_inv (compareToggle_change c s) = timers_inv s"
  by (simp_all add: es_open_def timers_inv_def)

lemma compareToggle_finish_fields [simp]:
  "files (compareToggle_finish s) = files s"
  "activeFileId (compareToggle_finish s) = activeFileId s"
  "settings (compareToggle_finish s) = settings s"
  "previewDebounce (compareToggle_finish s) = previewDebounce s"
  "compareMode (compareToggle_finish s) = compareMode s"
  "beforeImageUrl (compareToggle_finish s) = beforeImageUrl s"
  "afterImageUrl (compareToggle_finish s) = afterImageUrl s"
  "previewImage_src (compareToggle_finish s) = previewImage_src s"
  "afterImage_src (compareToggle_finish s) = afterImage_src s"
  "beforeImage_src (compareToggle_finish s) = beforeImage_src s"
  "issued (compareToggle_finish s) = issued s"
  "pending (compareToggle_finish s) = pending s"
  "timers (compareToggle_finish s) = timers s"
  "next_timer (compareToggle_finish s) = next_timer s"
  "sources (compareToggle_finish s) = sources s"
  "alerts (compareToggle_finish s) = alerts s"
  "console (compareToggle_finish s) = console s"
  "fileList_items (compareToggle_finish s) = fileList_items s"
  "progressSection_display (compareToggle_finish s) = progressSection_display s"
  "downloadSection_display (compareToggle_finish s) = downloadSection_display s"
  "downloadLinks (compareToggle_finish s) = downloadLinks s"
  "exportFilename_value (compareToggle_finish s) = exportFilename_value s"
  by (simp_all add: compareToggle_finish_def split: reply.splits body.splits option.splits list.splits)

lemma compareToggle_finish_views [simp]:
  "es_open k (compareToggle_finish s) = es_open k s"
  "timers_inv (compareToggle_finish s) = timers_inv s"
  by (simp_all add: es_open_def timers_inv_def)

lemma slider_input_fields [simp]:
  "files (slider_input name v s) = files s"
  "activeFileId (slider_input name v s) = activeFileId s"
  "compareMode (slider_input name v s) = compareMode s"
  "beforeImageUrl (slider_input name v s) = beforeImageUrl s"
  "afterImageUrl (slider_input name v s) = afterImageUrl s"
  "previewImage_src (slider_input name v s) = previewImage_src s"
  "afterImage_src (slider_input name v s) = afterImage_src s"
  "beforeImage_src (slider_input name v s) = beforeImage_src s"
  "issued (slider_input name v s) = issued s"
  "pending (slider_input name v s) = pending s"
  "sources (slider_input name v s) = sources s"
  "alerts (slider_input name v s) = alerts s"
  "console (slider_input name v s) = console s"
  "fileList_items (slider_input name v s) = fileList_items s"
  "progressSection_display (slider_input name v s) = progressSection_display s"
  "downloadSection_display (slider_input name v s) = downloadSection_display s"
  "downloadLinks (slider_input name v s) = downloadLinks s"
  "exportFilename_value (slider_input name v s) = exportFilename_value s"
  by (simp_all add: slider_input_def split: reply.splits body.splits option.splits list.splits)

lemma slider_input_views [simp]:
  "es_open k (slider_input name v s) = es_open k s"
  by (simp_all add: es_open_def timers_inv_def)

lemma select_all_click_fields [simp]:
  "activeFileId (select_all_click s) = activeFileId s"
  "settings (select_all_click s) = settings s"
  "previewDebounce (select_all_click s) = previewDebounce s"
  "compareMode (select_all_click s) = compareMode s"
  "beforeImageUrl (select_all_click s) = beforeImageUrl s"
  "afterImageUrl (select_all_click s) = afterImageUrl s"
  "previewImage_src (select_all_click s) = previewImage_src s"
  "afterImage_src (select_all_click s) = afterImage_src s"
  "beforeImage_src (select_all_click s) = beforeImage_src s"
  "issued (select_all_click s) = issued s"
  "pending (select_all_click s) = pending s"
  "timers (select_all_click s) = timers s"
  "next_timer (select_all_click s) = next_timer s"
  "sources (select_all_click s) = sources s"
  "alerts (select_all_click s) = alerts s"
  "console (select_all_click s) = console s"
  "progressSection_display (select_all_click s) = progressSection_display s"
  "downloadSection_display (select_all_click s) = downloadSection_display s"
  "downloadLinks (select_all_click s) = downloadLinks s"
  "exportFilename_value (select_all_click s) = exportFilename_value s"
  by (simp_all add: select_all_click_def Let_def split: reply.splits body.splits option.splits list.splits)

lemma select_all_click_views [simp]:
  "es_open k (select_all_click s) = es_open k s"
  "timers_inv (select_all_click s) = timers_inv s"
  by (simp_all add: es_open_def timers_inv_def)

lemma checkbox_change_fields [simp]:
  "activeFileId (checkbox_change f c s) = activeFileId s"
  "settings (checkbox_change f c s) = settings s"
  "previewDebounce (checkbox_change f c s) = previewDebounce s"
  "compareMode (checkbox_change f c s) = compareMode s"
  "beforeImageUrl (checkbox_change f c s) = beforeImageUrl s"
  "afterImageUrl (checkbox_change f c s) = afterImageUrl s"
  "previewImage_src (checkbox_change f c s) = previewImage_src s"
  "afterImage_src (checkbox_change f c s) = afterImage_src s"
  "beforeImage_src (checkbox_change f c s) = beforeImage_src s"
  "issued (checkbox_change f c s) = issued s"
  "pending (checkbox_change f c s) = pending s"
  "timers (checkbox_change f c s) = timers s"
  "next_timer (checkbox_change f c s) = next_timer s"
  "sources (checkbox_change f c s) = sources s"
  "alerts (checkbox_change f c s) = alerts s"
  "console (checkbox_change f c s) = console s"
  "progressSection_display (checkbox_change f c s) = progressSection_display s"
  "downloadSection_display (checkbox_change f c s) = downloadSection_display s"
  "downloadLinks (checkbox_change f c s) = downloadLinks s"
  "exportFilename_value (checkbox_change f c s) = exportFilename_value s"
  by (simp_all add: checkbox_change_def split: reply.splits body.splits option.splits list.splits)

lemma checkbox_change_views [simp]:
  "es_open k (checkbox_change f c s) = es_open k s"
  "timers_inv (checkbox_change f c s) = timers_inv s"
  by (simp_all add: es_open_def timers_inv_def)

lemma startBatchExport_fields [simp]:
  "files (startBatchExport ids s) = files s"
  "activeFileId (startBatchExport ids s) = activeFileId s"
  "settings (startBatchExport ids s) = settings s"
  "previewDebounce (startBatchExport ids s) = previewDebounce s"
  "compareMode (startBatchExport ids s) = compareMode s"
  "beforeImageUrl (startBatchExport ids s) = beforeImageUrl s"
  "afterImageUrl (startBatchExport ids s) = afterImageUrl s"
  "previewImage_src (startBatchExport ids s) = previewImage_src s"
  "afterImage_src (startBatchExport ids s) = afterImage_src s"
  "beforeImage_src (startBatchExport ids s) = beforeImage_src s"
  "timers (startBatchExport ids s) = timers s"
  "next_timer (startBatchExport ids s) = next_timer s"
  "sources (startBatchExport ids s) = sources s"
  "alerts (startBatchExport ids s) = alerts s"
  "console (startBatchExport ids s) = console s"
  "fileList_items (startBatchExport ids s) = fileList_items s"
  "downloadLinks (startBatchExport ids s) = downloadLinks s"
  "exportFilename_value (startBatchExport ids s) = exportFilename_value s"
  by (simp_all add: startBatchExport_def Let_def split: reply.splits body.splits option.splits list.splits)

lemma startBatchExport_views [simp]:
  "es_open k (startBatchExport ids s) = es_open k s"
  "timers_inv (startBatchExport ids s) = timers_inv s"
  by (simp_all add: es_open_def timers_inv_def)

lemma startBatchExport_resume_fields [simp]:
  "files (startBatchExport_resume r s) = files s"
  "activeFileId (startBatchExport_resume r s) = activeFileId s"
  "settings (startBatchExport_resume r s) = settings s"
  "previewDebounce (startBatchExport_resume r s) = previewDebounce s"
  "compareMode (startBatchExport_resume r s) = compareMode s"
  "beforeImageUrl (startBatchExport_resume r s) = beforeImageUrl s"
  "afterImageUrl (startBatchExport_resume r s) = afterImageUrl s"
  "previewImage_src (startBatchExport_resume r s) = previewImage_src s"
  "afterImage_src (startBatchExport_resume r s) = afterImage_src s"
  "beforeImage_src (startBatchExport_resume r s) = beforeImage_src s"
  "issued (startBatchExport_resume r s) = issued s"
  "pending (startBatchExport_resume r s) = pending s"
  "timers (startBatchExport_resume r s) = timers s"
  "next_timer (startBatchExport_resume r s) = next_timer s"
  "console (startBatchExport_resume r s) = console s"
  "fileList_items (startBatchExport_resume r s) = fileList_items s"
  "downloadSection_display (startBatchExport_resume r s) = downloadSection_display s"
  "downloadLinks (startBatchExport_resume r s) = downloadLinks s"
  "exportFilename_value (startBatchExport_resume r s) = exportFilename_value s"
  by (simp_all add: startBatchExport_resume_def split: reply.splits body.splits option.splits list.splits)

lemma startBatchExport_resume_views [simp]:
  "timers_inv (startBatchExport_resume r s) = timers_inv s"
  by (simp_all add: es_open_def timers_inv_def)

lemma onmessage_fields [simp]:
  "files (onmessage h d s) = files s"
  "activeFileId (onmessage h d s) = activeFileId s"
  "settings (onmessage h d s) = settings s"
  "previewDebounce (onmessage h d s) = previewDebounce s"
  "compareMode (onmessage h d s) = compareMode s"
  "beforeImageUrl (onmessage h d s) = beforeImageUrl s"
  "afterImageUrl (onmessage h d s) = afterImageUrl s"
  "previewImage_src (onmessage h d s) = previewImage_src s"
  "afterImage_src (onmessage h d s) = afterImage_src s"
  "beforeImage_src (onmessage h d s) = beforeImage_src s"
  "issued (onmessage h d s) = issued s"
  "pending (onmessage h d s) = pending s"
  "timers (onmessage h d s) = timers s"
  "next_timer (onmessage h d s) = next_timer s"
  "console (onmessage h d s) = console s"
  "fileList_items (onmessage h d s) = fileList_items s"
  "exportFilename_value (onmessage h d s) = exportFilename_value s"
  by (simp_all add: onmessage_def Let_def split: reply.splits body.splits option.splits list.splits)

lemma onmessage_views [simp]:
  "timers_inv (onmessage h d s) = timers_inv s"
  by (simp_all add: es_open_def timers_inv_def)

lemma onerror_fields [simp]:
  "files (onerror h s) = files s"
  "activeFileId (onerror h s) = activeFileId s"
  "settings (onerror h s) = settings s"
  "previewDebounce (onerror h s) = previewDebounce s"
  "compareMode (onerror h s) = compareMode s"
  "beforeImageUrl (onerror h s) = beforeImageUrl s"
  "afterImageUrl (onerror h s) = afterImageUrl s"
  "previewImage_src (onerror h s) = previewImage_src s"
  "afterImage_src (onerror h s) = afterImage_src s"
  "beforeImage_src (onerror h s) = beforeImage_src s"
  "issued (onerror h s) = issued s"
  "pending (onerror h s) = pending s"
  "timers (onerror h s) = timers s"
  "next_timer (onerror h s) = next_timer s"
  "alerts (onerror h s) = alerts s"
  "console (onerror h s) = console s"
  "fileList_items (onerror h s) = fileList_items s"
  "progressSection_display (onerror h s) = progressSection_display s"
  "downloadSection_display (onerror h s) = downloadSection_display s"
  "downloadLinks (onerror h s) = downloadLinks s"
  "exportFilename_value (onerror h s) = exportFilename_value s"
  by (simp_all add: onerror_def split: reply.splits body.splits option.splits list.splits)

lemma onerror_views [simp]:
  "timers_inv (onerror h s) = timers_inv s"
  by (simp_all add: es_open_def timers_inv_def)

lemma deleteFile_fields [simp]:
  "files (deleteFile f s) = files s"
  "activeFileId (deleteFile f s) = activeFileId s"
  "settings (deleteFile f s) = settings s"
  "previewDebounce (deleteFile f s) = previewDebounce s"
  "compareMode (deleteFile f s) = compareMode s"
  "beforeImageUrl (deleteFile f s) = beforeImageUrl s"
  "afterImageUrl (deleteFile f s) = afterImageUrl s"
  "previewImage_src (deleteFile f s) = previewImage_src s"
  "afterImage_src (deleteFile f s) = afterImage_src s"
  "beforeImage_src (deleteFile f s) = beforeImage_src s"
  "timers (deleteFile f s) = timers s"
  "next_timer (deleteFile f s) = next_timer s"
  "sources (deleteFile f s) = sources s"
  "alerts (deleteFile f s) = alerts s"
  "console (deleteFile f s) = console s"
  "fileList_items (deleteFile f s) = fileList_items s"
  "progressSection_display (deleteFile f s) = progressSection_display s"
  "downloadSection_display (deleteFile f s) = downloadSection_display s"
  "downloadLinks (deleteFile f s) = downloadLinks s"
  "exportFilename_value (deleteFile f s) = exportFilename_value s"
  by (simp_all add: deleteFile_def split: reply.splits body.splits option.splits list.splits)

lemma deleteFile_views [simp]:
  "es_open k (deleteFile f s) = es_open k s"
  "timers_inv (deleteFile f s) = timers_inv s"
  by (simp_all add: es_open_def timers_inv_def)

lemma deleteFile_resume_fields [simp]:
  "settings (deleteFile_resume f r s) = settings s"
  "compareMode (deleteFile_resume f r s) = compareMode s"
  "afterImageUrl (deleteFile_resume f r s) = afterImageUrl s"
  "previewImage_src (deleteFile_resume f r s) = previewImage_src s"
  "afterImage_src (deleteFile_resume f r s) = afterImage_src s"
  "beforeImage_src (deleteFile_resume f r s) = beforeImage_src s"
  "issued (deleteFile_resume f r s) = issued s"
  "pending (deleteFile_resume f r s) = pending s"
  "sources (deleteFile_resume f r s) = sources s"
  "alerts (deleteFile_resume f r s) = alerts s"
  "progressSection_display (deleteFile_resume f r s) = progressSection_display s"
  "downloadSection_display (deleteFile_resume f r s) = downloadSection_display s"
  "downloadLinks (deleteFile_resume f r s) = downloadLinks s"
  "exportFilename_value (deleteFile_resume f r s) = exportFilename_value s"
  by (simp_all add: deleteFile_resume_def Let_def split: reply.splits body.splits option.splits list.splits)

lemma deleteFile_resume_views [simp]:
  "es_open k (deleteFile_resume f r s) = es_open k s"
  by (simp_all add: es_open_def timers_inv_def)

lemma preset_resume_fields [simp]:
  "files (preset_resume what r s) = files s"
  "activeFileId (preset_resume what r s) = activeFileId s"
  "compareMode (preset_resume what r s) = compareMode s"
  "beforeImageUrl (preset_resume what r s) = beforeImageUrl s"
  "afterImageUrl (preset_resume what r s) = afterImageUrl s"
  "previewImage_src (preset_resume what r s) = previewImage_src s"
  "afterImage_src (preset_resume what r s) = afterImage_src s"
  "beforeImage_src (preset_resume what r s) = beforeImage_src s"
  "issued (preset_resume what r s) = issued s"
  "pending (preset_resume what r s) = pending s"
  "sources (preset_resume what r s) = sources s"
  "alerts (preset_resume what r s) = alerts s"
  "fileList_items (preset_resume what r s) = fileList_items s"
  "progressSection_display (preset_resume what r s) = progressSection_display s"
  "downloadSection_display (preset_resume what r s) = downloadSection_display s"
  "downloadLinks (preset_resume what r s) = downloadLinks s"
  "exportFilename_value (preset_resume what r s) = exportFilename_value s"
  using preset_resume_cases[of what r s] by auto

lemma preset_resume_views [simp]:
  "es_open k (preset_resume what r s) = es_open k s"
  by (simp_all add: es_open_def timers_inv_def)

subsection \<open>At most one live timeout\<close>

lemma timers_inv_updatePreview: "timers_inv s \<Longrightarrow> timers_inv (updatePreview s)"
  by (auto simp: timers_inv_def split: option.splits)

lemma timers_inv_selectFile: "timers_inv s \<Longrightarrow> timers_inv (selectFile f s)"
proof -
  assume "timers_inv s"
  then have "timers_inv (s\<lparr>activeFileId := Some f, beforeImageUrl := None\<rparr>)"
    by (simp add: timers_inv_def)
  then show ?thesis
    unfolding selectFile_def by (simp add: timers_inv_updatePreview)
qed

lemma timers_inv_uploadFile_resume: "timers_inv s \<Longrightarrow> timers_inv (uploadFile_resume r s)"
proof -
  assume inv: "timers_inv s"
  have "timers_inv (s\<lparr>files := fs\<rparr>)" for fs
    using inv by (simp add: timers_inv_def)
  then show ?thesis
    by (auto simp: uploadFile_resume_def Let_def inv timers_inv_selectFile split: reply.splits body.splits)
qed

lemma timers_inv_deleteFile_resume: "timers_inv s \<Longrightarrow> timers_inv (deleteFile_resume f r s)"
proof -
  assume inv: "timers_inv s"
  have a: "timers_inv (s\<lparr>files := fs\<rparr>)" for fs
    using inv by (simp add: timers_inv_def)
  have b: "timers_inv (s\<lparr>files := fs, activeFileId := a, beforeImageUrl := None\<rparr>)" for fs a
    using inv by (simp add: timers_inv_def)
  have c: "timers_inv (s\<lparr>files := fs, activeFileId := a, beforeImageUrl := None,
            previewImage_display := D_none, comparisonContainer_display := D_none,
            previewPlaceholder_display := D_block\<rparr>)" for fs a
    using inv by (simp add: timers_inv_def)
  show ?thesis
    by (auto simp: deleteFile_resume_def Let_def inv a b c timers_inv_updatePreview split: reply.splits)
qed

lemma timers_inv_preset_resume: "timers_inv s \<Longrightarrow> timers_inv (preset_resume what r s)"
proof (cases r)
  case (Rejected msg)
  assume "timers_inv s"
  with Rejected show ?thesis by (simp add: preset_resume_def)
next
  case (Replied ok b)
  assume inv: "timers_inv s"
  show ?thesis
  proof (cases b)
    case (Unreadable msg)
    with Replied inv show ?thesis by (simp add: preset_resume_def)
  next
    case (Body p)
    have "timers_inv (s\<lparr>settings := p, slider_value := sv, valueDisplay := vd\<rparr>)" for sv vd
      using inv by (simp add: timers_inv_def)
    then show ?thesis
      using preset_resume_Body[of what ok p s] Replied Body
      by (auto simp: timers_inv_updatePreview)
  qed
qed

lemma timers_inv_slider_input: "timers_inv s \<Longrightarrow> timers_inv (slider_input name v s)"
proof -
  assume "timers_inv s"
  then have "timers_inv (s\<lparr>settings := a, slider_value := b, valueDisplay := c\<rparr>)" for a b c
    by (simp add: timers_inv_def)
  then show ?thesis by (simp add: slider_input_def timers_inv_updatePreview)
qed

lemma timers_inv_step: "timers_inv s \<Longrightarrow> timers_inv (step e s)"
proof (cases e)
  case (TimerFired t)
  assume "timers_inv s"
  then show ?thesis
    using TimerFired by (auto simp: timers_inv_def previewTimer_def)
next
  case (UploadSettled h r)
  assume "timers_inv s"
  then show ?thesis
    using UploadSettled
    by (auto simp: timers_inv_uploadFile_resume split: option.splits request.splits)
next
  case (FilenameClicked f)
  assume "timers_inv s"
  then show ?thesis
    using FilenameClicked by (auto simp: timers_inv_selectFile)
next
  case (DeleteSettled h r)
  assume "timers_inv s"
  then show ?thesis
    using DeleteSettled
    by (auto simp: timers_inv_deleteFile_resume split: option.splits request.splits)
next
  case (SliderInput name v)
  assume "timers_inv s"
  then show ?thesis
    using SliderInput by (auto simp: timers_inv_slider_input)
next
  case (PresetSettled h r)
  assume "timers_inv s"
  then show ?thesis
    using PresetSettled
    by (auto simp: timers_inv_preset_resume split: option.splits request.splits)
next
  case (FilenameTyped x)
  assume "timers_inv s"
  then show ?thesis
    using FilenameTyped by (simp add: timers_inv_def)
qed (auto split: option.splits request.splits origin.splits)

lemma reachable_timers_inv: "reachable s \<Longrightarrow> timers_inv s"
proof (induction rule: reachable.induct)
  case reachable_init
  show ?case by (simp add: timers_inv_def init_app_def)
next
  case (reachable_step s e)
  then show ?case by (simp add: timers_inv_step)
qed

subsection \<open>Selecting and deleting a file\<close>

lemma selectFile_registry [simp]:
  "activeFileId (selectFile f s) = Some f"
  "fileList_items (selectFile f s) = map file_id (files s)"
  "beforeImageUrl (selectFile f s) = None"
  by (simp_all add: selectFile_def)


lemma deleteFile_resume_Rejected:
  "deleteFile_resume f (Rejected msg) s = console_error ''Delete failed:'' s"
  by (simp add: deleteFile_resume_def)

section \<open>The claims\<close>

subsection \<open>C1: order of preview responses\<close>

text \<open>
  C1, as stated: of two preview requests A and B for the same file, A issued first, a
  response to A that arrives after B's has been accepted is discarded, and the preview
  stays B's image. The script keeps no sequence token and compares nothing when a response
  arrives. In the run below the file \<open>f1\<close> is active; request 1 (A, default settings) is
  issued, the exposure is set to 1.5, request 2 (B) is issued; B's response arrives and is
  shown; A is still in flight; then A's response arrives and replaces B's image.
\<close>

theorem C1_late_response_replaces_newer:
  "request_of
     (run [TimerFired 1, SliderInput ''exposure'' 1.5, TimerFired 2,
           PreviewSettled 2 (Replied True (Body ''blob:B''))] one_file) 1
     = Some (Req_preview (Some ''f1'') defaultSettings) \<and>
   issued
     (run [TimerFired 1, SliderInput ''exposure'' 1.5, TimerFired 2,
           PreviewSettled 2 (Replied True (Body ''blob:B''))] one_file) ! 2
     = Req_preview (Some ''f1'') (obj_put ''exposure'' (JNum 1.5) defaultSettings) \<and>
   previewImage_src
     (run [TimerFired 1, SliderInput ''exposure'' 1.5, TimerFired 2,
           PreviewSettled 2 (Replied True (Body ''blob:B''))] one_file) = Some ''blob:B'' \<and>
   previewImage_src
     (run [TimerFired 1, SliderInput ''exposure'' 1.5, TimerFired 2,
           PreviewSettled 2 (Replied True (Body ''blob:B'')),
           PreviewSettled 1 (Replied True (Body ''blob:A''))] one_file) = Some ''blob:A'' \<and>
   afterImageUrl
     (run [TimerFired 1, SliderInput ''exposure'' 1.5, TimerFired 2,
           PreviewSettled 2 (Replied True (Body ''blob:B'')),
           PreviewSettled 1 (Replied True (Body ''blob:A''))] one_file) = Some ''blob:A''"
  by (simp add: eval_defs)

text \<open>
  C1, amended: every preview response that arrives with a success status is accepted when
  it arrives, whatever the order of issue: its image becomes the preview and the "after"
  image. A response without success status, and a request that fails, leave the preview
  as it is. So the preview shown is the image of the successful response that arrived last.
\<close>

theorem C1_response_accepted_on_arrival:
  assumes "request_of s h = Some (Req_preview a p)"
  shows "previewImage_src (step (PreviewSettled h (Replied True (Body url))) s) = Some url \<and>
         afterImageUrl (step (PreviewSettled h (Replied True (Body url))) s) = Some url \<and>
         afterImage_src (step (PreviewSettled h (Replied True (Body url))) s) = Some url \<and>
         previewImage_src (step (PreviewSettled h (Replied False b)) s) = previewImage_src s \<and>
         previewImage_src (step (PreviewSettled h (Rejected msg)) s) = previewImage_src s"
  using assms
  by (simp add: previewTimer_resume_def previewTimer_finish_def loadBeforeImage_def Let_def
           split: option.splits)

theorem C1_response_accepted_on_arrival_witness:
  "request_of
     (run [TimerFired 1, SliderInput ''exposure'' 1.5, TimerFired 2,
           PreviewSettled 2 (Replied True (Body ''blob:B''))] one_file) 1
     = Some (Req_preview (Some ''f1'') defaultSettings) \<and>
   previewImage_src
     (step (PreviewSettled 1 (Replied True (Body ''blob:A'')))
        (run [TimerFired 1, SliderInput ''exposure'' 1.5, TimerFired 2,
              PreviewSettled 2 (Replied True (Body ''blob:B''))] one_file)) = Some ''blob:A''"
proof -
  have h: "request_of
     (run [TimerFired 1, SliderInput ''exposure'' 1.5, TimerFired 2,
           PreviewSettled 2 (Replied True (Body ''blob:B''))] one_file) 1
     = Some (Req_preview (Some ''f1'') defaultSettings)"
    by (simp add: eval_defs)
  from C1_response_accepted_on_arrival[OF h, of "''blob:A''"] h show ?thesis by blast
qed

subsection \<open>C2: no clamping\<close>





subsection \<open>C3: debounce\<close>

lemma run_append: "run (xs @ ys) s = run ys (run xs s)"
  by (induction xs arbitrary: s) simp_all

lemma mutation_step:
  assumes "is_mutation e s"
  shows "\<exists>s0. step e s = updatePreview s0 \<and> activeFileId s0 = activeFileId s \<and>
              timers s0 = timers s \<and> previewDebounce s0 = previewDebounce s \<and>
              issued s0 = issued s \<and> written_by e (settings s0) \<and>
              next_timer s0 = next_timer s"
proof (cases e)
  case (SliderInput name v)
  with assms have "step e s = updatePreview
      (s\<lparr>settings := obj_put name (JNum v) (settings s),
         slider_value := obj_put name (Some (JNum v)) (slider_value s),
         valueDisplay := obj_put name v (valueDisplay s)\<rparr>)"
    by (simp add: slider_input_def)
  then show ?thesis
    unfolding SliderInput by (intro exI conjI, assumption) (simp_all add: map_of_obj_put)
next
  case (PresetSettled h r)
  with assms obtain ok p name where r: "r = Replied ok (Body p)" and c: "complete_snapshot p"
    and q: "request_of s h = Some (Req_preset name)"
    by (cases r; cases "request_of s h")
       (auto split: body.splits request.splits elim: is_mutation.elims)
  from preset_resume_complete[OF c, of "preset_message name" ok "settle h s"]
  obtain sv vd where "preset_resume (preset_message name) (Replied ok (Body p)) (settle h s) =
      updatePreview (settle h s\<lparr>settings := p, slider_value := sv, valueDisplay := vd\<rparr>)"
    by blast
  with q have "step e s =
      updatePreview (settle h s\<lparr>settings := p, slider_value := sv, valueDisplay := vd\<rparr>)"
    unfolding PresetSettled r by simp
  then show ?thesis
    unfolding PresetSettled r by (intro exI conjI, assumption) simp_all
qed (use assms in simp_all)

lemma mutation_effect:
  assumes "is_mutation e s" and "truthy (activeFileId s)" and "timers_inv s"
  shows "timers (step e s) = [next_timer s]"
    and "next_timer s \<notin> set (timers s)"
    and "issued (step e s) = issued s"
    and "activeFileId (step e s) = activeFileId s"
    and "written_by e (settings (step e s))"
proof -
  from mutation_step[OF assms(1)] obtain s0 where s0: "step e s = updatePreview s0"
    "activeFileId s0 = activeFileId s" "timers s0 = timers s"
    "previewDebounce s0 = previewDebounce s" "issued s0 = issued s" "written_by e (settings s0)"
    "next_timer s0 = next_timer s"
    by blast
  from assms(3) s0(3,4,7)
  have inv0: "timers s0 = [] \<or>
      timers s0 = [the (previewDebounce s0)] \<and> previewDebounce s0 \<noteq> None \<and>
      the (previewDebounce s0) < next_timer s0"
    by (simp add: timers_inv_def)
  then have "timers (updatePreview s0) = [next_timer s0]"
    using assms(2) s0(2) by (auto split: option.splits)
  then show "timers (step e s) = [next_timer s]" by (simp add: s0(1,7))
  from inv0 show "next_timer s \<notin> set (timers s)"
    using s0(3,7) by auto
  show "issued (step e s) = issued s" by (simp add: s0)
  show "activeFileId (step e s) = activeFileId s" by (simp add: s0)
  show "written_by e (settings (step e s))" using s0(6) by (simp add: s0(1))
qed

lemma mutations_run:
  assumes "all_mutations es s" and "truthy (activeFileId s)" and "reachable s" and "es \<noteq> []"
  shows "(\<exists>t. timers (run es s) = [t]) \<and> issued (run es s) = issued s \<and>
         activeFileId (run es s) = activeFileId s \<and> written_by (last es) (settings (run es s))"
  using assms
proof (induction es arbitrary: s)
  case Nil
  then show ?case by simp
next
  case (Cons e es)
  from Cons.prems have m: "is_mutation e s" and rest: "all_mutations es (step e s)" by simp_all
  have inv: "timers_inv s" using Cons.prems(3) by (rule reachable_timers_inv)
  note eff = mutation_effect[OF m Cons.prems(2) inv]
  show ?case
  proof (cases "es = []")
    case True
    with eff show ?thesis by simp
  next
    case False
    have "truthy (activeFileId (step e s))" using eff(4) Cons.prems(2) by simp
    moreover have "reachable (step e s)" using Cons.prems(3) by (rule reachable_step)
    ultimately have "(\<exists>t. timers (run es (step e s)) = [t]) \<and>
         issued (run es (step e s)) = issued (step e s) \<and>
         activeFileId (run es (step e s)) = activeFileId (step e s) \<and>
         written_by (last es) (settings (run es (step e s)))"
      using Cons.IH[OF rest _ _ False] by blast
    with eff False show ?thesis by simp
  qed
qed

text \<open>
  C3, as stated: every sequence of one or more settings mutations within the quiet window
  leads to exactly one preview fetch. \<^verbatim>\<open>updatePreview\<close> returns at once when no file is
  active. In the run below the page has just been loaded and the exposure slider is moved
  three times: no timeout is started, and no request is issued, also not when the time
  of a timeout has passed.
\<close>

theorem C3_no_fetch_without_active_file:
  "activeFileId init_app = None \<and>
   map_of (settings (run [SliderInput ''exposure'' 1.2, SliderInput ''exposure'' 1.4,
                          SliderInput ''exposure'' 1.5] init_app)) ''exposure'' = Some (JNum 1.5) \<and>
   timers (run [SliderInput ''exposure'' 1.2, SliderInput ''exposure'' 1.4,
                SliderInput ''exposure'' 1.5] init_app) = [] \<and>
   issued (run [SliderInput ''exposure'' 1.2, SliderInput ''exposure'' 1.4,
                SliderInput ''exposure'' 1.5, TimerFired 1] init_app) = []"
  by (simp add: eval_defs)

text \<open>
  C3, amended: while a file is active, every sequence of one or more settings mutations
  (inputs on the sliders, arrivals of complete preset or defaults snapshots) with no
  timeout firing in between issues no request and leaves exactly one timeout live; when
  that timeout fires, exactly one preview request is issued, for the active file and with
  the settings as the last mutation left them, and no timeout is live any more. Each
  mutation made while a file is active clears the timeout that was pending and starts a
  new one, which is then the only live timeout; in every reachable state at most one
  timeout is live. While no file is active, a mutation starts no timeout, clears none
  and issues no request; if no timeout was pending, none is live afterwards, so that no
  timeout can fire and issue a request.
\<close>

theorem C3_debounce_coalesces:
  "(reachable s \<and> truthy (activeFileId s) \<and> es \<noteq> [] \<and> all_mutations es s \<longrightarrow>
      (\<exists>t. timers (run es s) = [t] \<and>
           issued (run es s) = issued s \<and>
           issued (step (TimerFired t) (run es s))
             = issued s @ [Req_preview (activeFileId s) (settings (run es s))] \<and>
           timers (step (TimerFired t) (run es s)) = []) \<and>
      written_by (last es) (settings (run es s))) \<and>
   (reachable s' \<longrightarrow> length (timers s') \<le> 1) \<and>
   (reachable sa \<and> truthy (activeFileId sa) \<and> is_mutation ea sa \<longrightarrow>
      timers (step ea sa) = [next_timer sa] \<and> next_timer sa \<notin> set (timers sa)) \<and>
   (\<not> truthy (activeFileId s'') \<and> is_mutation e s'' \<longrightarrow>
      timers (step e s'') = timers s'' \<and>
      previewDebounce (step e s'') = previewDebounce s'' \<and>
      issued (step e s'') = issued s'') \<and>
   (\<not> truthy (activeFileId sb) \<and> is_mutation eb sb \<and> timers sb = [] \<longrightarrow>
      timers (step eb sb) = [] \<and> step (TimerFired t') (step eb sb) = step eb sb)"
proof (intro conjI impI)
  assume a: "reachable s \<and> truthy (activeFileId s) \<and> es \<noteq> [] \<and> all_mutations es s"
  then have r: "(\<exists>t. timers (run es s) = [t]) \<and> issued (run es s) = issued s \<and>
         activeFileId (run es s) = activeFileId s \<and> written_by (last es) (settings (run es s))"
    using mutations_run[of es s] by blast
  then obtain t where t: "timers (run es s) = [t]" by blast
  have "issued (step (TimerFired t) (run es s))
          = issued s @ [Req_preview (activeFileId s) (settings (run es s))]"
    using t r by (simp add: previewTimer_def showPreviewLoading_def)
  moreover have "timers (step (TimerFired t) (run es s)) = []"
    using t by (simp add: previewTimer_def)
  ultimately show "\<exists>t. timers (run es s) = [t] \<and>
           issued (run es s) = issued s \<and>
           issued (step (TimerFired t) (run es s))
             = issued s @ [Req_preview (activeFileId s) (settings (run es s))] \<and>
           timers (step (TimerFired t) (run es s)) = []"
    using t r by blast
  from r show "written_by (last es) (settings (run es s))" by blast
next
  assume "reachable s'"
  then have "timers_inv s'" by (rule reachable_timers_inv)
  then show "length (timers s') \<le> 1" by (auto simp: timers_inv_def)
next
  assume a: "reachable sa \<and> truthy (activeFileId sa) \<and> is_mutation ea sa"
  then have "timers_inv sa" by (simp add: reachable_timers_inv)
  with a show "timers (step ea sa) = [next_timer sa]" and "next_timer sa \<notin> set (timers sa)"
    using mutation_effect(1,2)[of ea sa] by blast+
next
  assume a: "\<not> truthy (activeFileId s'') \<and> is_mutation e s''"
  then obtain s0 where s0: "step e s'' = updatePreview s0" "activeFileId s0 = activeFileId s''"
    "timers s0 = timers s''" "issued s0 = issued s''" "previewDebounce s0 = previewDebounce s''"
    using mutation_step[of e s''] by blast
  with a show "timers (step e s'') = timers s''" by simp
  from s0 a show "previewDebounce (step e s'') = previewDebounce s''" by simp
  from s0 a show "issued (step e s'') = issued s''" by simp
next
  assume a: "\<not> truthy (activeFileId sb) \<and> is_mutation eb sb \<and> timers sb = []"
  then obtain s0 where s0: "step eb sb = updatePreview s0" "activeFileId s0 = activeFileId sb"
    "timers s0 = timers sb"
    using mutation_step[of eb sb] by blast
  with a show n: "timers (step eb sb) = []" by simp
  then show "step (TimerFired t') (step eb sb) = step eb sb" by simp
qed

theorem C3_debounce_coalesces_witness:
  "(reachable (step ResetClicked one_file) \<and> truthy (activeFileId (step ResetClicked one_file)) \<and>
    [SliderInput ''exposure'' 1.2, PresetSettled 1 (Replied True (Body defaultSettings)),
     SliderInput ''exposure'' 1.5] \<noteq> [] \<and>
    all_mutations [SliderInput ''exposure'' 1.2, PresetSettled 1 (Replied True (Body defaultSettings)),
                   SliderInput ''exposure'' 1.5] (step ResetClicked one_file)) \<and>
   (\<exists>t. timers (run [SliderInput ''exposure'' 1.2, PresetSettled 1 (Replied True (Body defaultSettings)),
                      SliderInput ''exposure'' 1.5] (step ResetClicked one_file)) = [t] \<and>
        issued (run [SliderInput ''exposure'' 1.2, PresetSettled 1 (Replied True (Body defaultSettings)),
                     SliderInput ''exposure'' 1.5] (step ResetClicked one_file))
          = issued (step ResetClicked one_file) \<and>
        issued (step (TimerFired t)
                 (run [SliderInput ''exposure'' 1.2, PresetSettled 1 (Replied True (Body defaultSettings)),
                       SliderInput ''exposure'' 1.5] (step ResetClicked one_file)))
          = issued (step ResetClicked one_file) @
            [Req_preview (activeFileId (step ResetClicked one_file))
               (settings (run [SliderInput ''exposure'' 1.2,
                               PresetSettled 1 (Replied True (Body defaultSettings)),
                               SliderInput ''exposure'' 1.5] (step ResetClicked one_file)))] \<and>
        timers (step (TimerFired t)
                 (run [SliderInput ''exposure'' 1.2, PresetSettled 1 (Replied True (Body defaultSettings)),
                       SliderInput ''exposure'' 1.5] (step ResetClicked one_file))) = []) \<and>
   settings (run [SliderInput ''exposure'' 1.2, PresetSettled 1 (Replied True (Body defaultSettings)),
                  SliderInput ''exposure'' 1.5] (step ResetClicked one_file))
     = obj_put ''exposure'' (JNum 1.5) defaultSettings \<and>
   reachable one_file \<and> length (timers one_file) \<le> 1 \<and>
   (reachable one_file \<and> truthy (activeFileId one_file) \<and>
    is_mutation (SliderInput ''exposure'' 1.5) one_file) \<and>
   timers (step (SliderInput ''exposure'' 1.5) one_file) = [next_timer one_file] \<and>
   next_timer one_file \<notin> set (timers one_file) \<and>
   (\<not> truthy (activeFileId init_app) \<and> is_mutation (SliderInput ''exposure'' 1.5) init_app \<and>
    timers init_app = []) \<and>
   issued (step (SliderInput ''exposure'' 1.5) init_app) = issued init_app \<and>
   timers (step (SliderInput ''exposure'' 1.5) init_app) = [] \<and>
   step (TimerFired 1) (step (SliderInput ''exposure'' 1.5) init_app)
     = step (SliderInput ''exposure'' 1.5) init_app"
proof -
  have r: "reachable (step ResetClicked one_file)"
    using reachable_one_file by (rule reachable_step)
  have a: "truthy (activeFileId (step ResetClicked one_file))" by (simp add: eval_defs)
  have b: "all_mutations [SliderInput ''exposure'' 1.2, PresetSettled 1 (Replied True (Body defaultSettings)),
                   SliderInput ''exposure'' 1.5] (step ResetClicked one_file)"
    by (simp add: eval_defs complete_snapshot_def)
  have c: "[SliderInput ''exposure'' 1.2, PresetSettled 1 (Replied True (Body defaultSettings)),
     SliderInput ''exposure'' 1.5] \<noteq> []" by simp
  have d: "settings (run [SliderInput ''exposure'' 1.2, PresetSettled 1 (Replied True (Body defaultSettings)),
                  SliderInput ''exposure'' 1.5] (step ResetClicked one_file))
     = obj_put ''exposure'' (JNum 1.5) defaultSettings"
    by (simp add: eval_defs)
  have e: "\<not> truthy (activeFileId init_app) \<and> is_mutation (SliderInput ''exposure'' 1.5) init_app \<and>
           timers init_app = []"
    by (simp add: eval_defs)
  have f: "truthy (activeFileId one_file) \<and> is_mutation (SliderInput ''exposure'' 1.5) one_file"
    by (simp add: eval_defs)
  note T = C3_debounce_coalesces[where s = "step ResetClicked one_file"
      and es = "[SliderInput ''exposure'' 1.2, PresetSettled 1 (Replied True (Body defaultSettings)),
                 SliderInput ''exposure'' 1.5]"
      and s' = one_file and sa = one_file and ea = "SliderInput ''exposure'' 1.5"
      and s'' = init_app and e = "SliderInput ''exposure'' 1.5"
      and sb = init_app and eb = "SliderInput ''exposure'' 1.5" and t' = 1]
  note T1 = T[THEN conjunct1]
  note T2 = T[THEN conjunct2, THEN conjunct1]
  note T3 = T[THEN conjunct2, THEN conjunct2, THEN conjunct1]
  note T4 = T[THEN conjunct2, THEN conjunct2, THEN conjunct2, THEN conjunct1]
  note T5 = T[THEN conjunct2, THEN conjunct2, THEN conjunct2, THEN conjunct2]
  have h1: "reachable (step ResetClicked one_file) \<and> truthy (activeFileId (step ResetClicked one_file)) \<and>
    [SliderInput ''exposure'' 1.2, PresetSettled 1 (Replied True (Body defaultSettings)),
     SliderInput ''exposure'' 1.5] \<noteq> [] \<and>
    all_mutations [SliderInput ''exposure'' 1.2, PresetSettled 1 (Replied True (Body defaultSettings)),
                   SliderInput ''exposure'' 1.5] (step ResetClicked one_file)"
    using r a b c by (intro conjI)
  have h3: "reachable one_file \<and> truthy (activeFileId one_file) \<and>
    is_mutation (SliderInput ''exposure'' 1.5) one_file"
    using reachable_one_file f by blast
  have h4: "\<not> truthy (activeFileId init_app) \<and> is_mutation (SliderInput ''exposure'' 1.5) init_app"
    using e by blast
  note c1 = T1[THEN mp, OF h1, THEN conjunct1]
  note c2 = T2[THEN mp, OF reachable_one_file]
  note c3 = T3[THEN mp, OF h3]
  note c4 = T4[THEN mp, OF h4]
  note c5 = T5[THEN mp, OF e]
  show ?thesis
    by (intro conjI h1 c1 d reachable_one_file c2 h3 c3[THEN conjunct1] c3[THEN conjunct2] e
          c4[THEN conjunct2, THEN conjunct2] c5[THEN conjunct1] c5[THEN conjunct2])
qed

subsection \<open>C4: one terminal outcome per batch job\<close>

lemma sources_length_step: "length (sources s) \<le> length (sources (step e s))"
  by (cases e)
     (auto simp: startBatchExport_resume_def onmessage_def onerror_def Let_def
        split: option.splits request.splits origin.splits reply.splits body.splits)

lemma es_open_startBatchExport_resume:
  "es_open k (startBatchExport_resume r s) \<Longrightarrow> es_open k s \<or> k = length (sources s)"
  by (auto simp: startBatchExport_resume_def es_open_def nth_append split: reply.splits body.splits)

lemma es_open_onmessage: "es_open k (onmessage h d s) = (es_open k s \<and> (terminal d \<longrightarrow> k \<noteq> h))"
  by (auto simp: onmessage_def terminal_def Let_def es_open_def es_close_def nth_list_update)

lemma closed_stays_closed:
  assumes "h < length (sources s)" and "\<not> es_open h s"
  shows "\<not> es_open h (step e s)"
proof (cases e)
  case (BatchStartSettled k r)
  with assms show ?thesis
    by (auto dest: es_open_startBatchExport_resume split: option.splits request.splits)
next
  case (SseMessage k d)
  with assms show ?thesis by (auto simp: es_open_onmessage)
next
  case (FilenameTyped x)
  with assms show ?thesis by (simp add: es_open_def)
qed (use assms in \<open>auto simp: onerror_def split: option.splits request.splits origin.splits\<close>)

lemma handled_closed:
  "h < length (sources s) \<Longrightarrow> \<not> es_open h s \<Longrightarrow> handled h es s = []"
proof (induction es arbitrary: s)
  case Nil
  show ?case by simp
next
  case (Cons e es)
  have a: "h < length (sources (step e s))"
    using Cons.prems(1) sources_length_step[of s e] by linarith
  have b: "\<not> es_open h (step e s)"
    using Cons.prems by (rule closed_stays_closed)
  have "handled h es (step e s) = []"
    using a b by (rule Cons.IH)
  with Cons.prems(2) show ?case by (cases e) (simp_all del: step.simps)
qed

lemma terminal_closes:
  assumes "es_open h s" and "terminal d"
  shows "h < length (sources (step (SseMessage h d) s)) \<and> \<not> es_open h (step (SseMessage h d) s)"
proof -
  from assms(1) have "h < length (sources s)" by (simp add: es_open_def)
  then have "h < length (sources (step (SseMessage h d) s))"
    using sources_length_step[of s "SseMessage h d"] by linarith
  moreover from assms have "\<not> es_open h (step (SseMessage h d) s)"
    by (simp add: es_open_onmessage)
  ultimately show ?thesis by simp
qed

lemma handled_terminal_once: "length (filter terminal (handled h es s)) \<le> 1"
proof (induction es arbitrary: s)
  case Nil
  show ?case by simp
next
  case (Cons e es)
  show ?case
  proof (cases "\<exists>d. e = SseMessage h d \<and> es_open h s \<and> terminal d")
    case True
    then obtain d where d: "e = SseMessage h d" "es_open h s" "terminal d" by blast
    then have "handled h es (step e s) = []"
      using terminal_closes[of h s d] handled_closed by blast
    with d show ?thesis by (simp del: step.simps)
  next
    case False
    with Cons.IH[of "step e s"] show ?thesis by (cases e) (auto simp del: step.simps)
  qed
qed

text \<open>
  C4: of the progress events of a run that reach the handler of a job's event source, at
  most one is terminal (carries an error or says done), whatever else happens in the run.
  A source that is closed delivers nothing. An event with an error closes the source at
  once, reports the error and shows no results, even when it also says done; an event
  without error that says done closes the source and shows its results, and reports
  nothing. After either, no event of any continuation of the run reaches the handler.
\<close>

theorem C4_one_terminal_outcome:
  "length (filter terminal (handled h es s)) \<le> 1 \<and>
   (\<not> es_open h s0 \<longrightarrow> step (SseMessage h d0) s0 = s0) \<and>
   (es_open h s1 \<and> truthy (ev_error d1) \<longrightarrow>
      \<not> es_open h (step (SseMessage h d1) s1) \<and>
      alerts (step (SseMessage h d1) s1) = alerts s1 @ [the (ev_error d1)] \<and>
      progressSection_display (step (SseMessage h d1) s1) = D_none \<and>
      downloadLinks (step (SseMessage h d1) s1) = downloadLinks s1 \<and>
      downloadSection_display (step (SseMessage h d1) s1) = downloadSection_display s1 \<and>
      handled h es1 (step (SseMessage h d1) s1) = []) \<and>
   (es_open h s2 \<and> \<not> truthy (ev_error d2) \<and> ev_done d2 \<longrightarrow>
      \<not> es_open h (step (SseMessage h d2) s2) \<and>
      downloadLinks (step (SseMessage h d2) s2) = ev_results d2 \<and>
      downloadSection_display (step (SseMessage h d2) s2) = D_block \<and>
      alerts (step (SseMessage h d2) s2) = alerts s2 \<and>
      handled h es2 (step (SseMessage h d2) s2) = [])"
proof (intro conjI impI)
  show "length (filter terminal (handled h es s)) \<le> 1"
    by (rule handled_terminal_once)
next
  assume "\<not> es_open h s0"
  then show "step (SseMessage h d0) s0 = s0" by simp
next
  assume a: "es_open h s1 \<and> truthy (ev_error d1)"
  then have t: "terminal d1" by (simp add: terminal_def)
  from a show "\<not> es_open h (step (SseMessage h d1) s1)"
    using terminal_closes[OF _ t] by blast
  from a show "alerts (step (SseMessage h d1) s1) = alerts s1 @ [the (ev_error d1)]"
    by (simp add: onmessage_def)
  from a show "progressSection_display (step (SseMessage h d1) s1) = D_none"
    by (simp add: onmessage_def)
  from a show "downloadLinks (step (SseMessage h d1) s1) = downloadLinks s1"
    by (simp add: onmessage_def)
  from a show "downloadSection_display (step (SseMessage h d1) s1) = downloadSection_display s1"
    by (simp add: onmessage_def)
  from a show "handled h es1 (step (SseMessage h d1) s1) = []"
    using terminal_closes[OF _ t] handled_closed by blast
next
  assume a: "es_open h s2 \<and> \<not> truthy (ev_error d2) \<and> ev_done d2"
  then have t: "terminal d2" by (simp add: terminal_def)
  from a show "\<not> es_open h (step (SseMessage h d2) s2)"
    using terminal_closes[OF _ t] by blast
  from a show "downloadLinks (step (SseMessage h d2) s2) = ev_results d2"
    by (simp add: onmessage_def Let_def)
  from a show "downloadSection_display (step (SseMessage h d2) s2) = D_block"
    by (simp add: onmessage_def Let_def)
  from a show "alerts (step (SseMessage h d2) s2) = alerts s2"
    by (simp add: onmessage_def Let_def)
  from a show "handled h es2 (step (SseMessage h d2) s2) = []"
    using terminal_closes[OF _ t] handled_closed by blast
qed

theorem C4_one_terminal_outcome_witness:
  "handled 0 [SseMessage 0 progress_ev, SseMessage 0 done_ev, SseMessage 0 error_ev,
              SseMessage 0 progress_ev] job_running = [progress_ev, done_ev] \<and>
   length (filter terminal
            (handled 0 [SseMessage 0 progress_ev, SseMessage 0 done_ev, SseMessage 0 error_ev,
                        SseMessage 0 progress_ev] job_running)) \<le> 1 \<and>
   \<not> es_open 0 (step (SseMessage 0 done_ev) job_running) \<and>
   step (SseMessage 0 error_ev) (step (SseMessage 0 done_ev) job_running)
     = step (SseMessage 0 done_ev) job_running \<and>
   (es_open 0 job_running \<and> truthy (ev_error error_ev)) \<and>
   alerts (step (SseMessage 0 error_ev) job_running) = alerts job_running @ [the (ev_error error_ev)] \<and>
   downloadLinks (step (SseMessage 0 error_ev) job_running) = downloadLinks job_running \<and>
   handled 0 [SseMessage 0 done_ev] (step (SseMessage 0 error_ev) job_running) = [] \<and>
   (es_open 0 job_running \<and> \<not> truthy (ev_error done_ev) \<and> ev_done done_ev) \<and>
   downloadLinks (step (SseMessage 0 done_ev) job_running) = ev_results done_ev \<and>
   handled 0 [SseMessage 0 error_ev] (step (SseMessage 0 done_ev) job_running) = []"
proof -
  have o: "es_open 0 job_running" by (simp add: eval_defs)
  have e: "truthy (ev_error error_ev)" by (simp add: error_ev_def truthy_def)
  have d: "\<not> truthy (ev_error done_ev) \<and> ev_done done_ev" by (simp add: done_ev_def truthy_def)
  have c: "\<not> es_open 0 (step (SseMessage 0 done_ev) job_running)"
    using o d by (simp add: es_open_onmessage terminal_def)
  have hd: "handled 0 [SseMessage 0 progress_ev, SseMessage 0 done_ev, SseMessage 0 error_ev,
              SseMessage 0 progress_ev] job_running = [progress_ev, done_ev]"
    using o by (simp add: es_open_onmessage terminal_def progress_ev_def done_ev_def truthy_def)
  from C4_one_terminal_outcome[where h = 0 and s = job_running
      and es = "[SseMessage 0 progress_ev, SseMessage 0 done_ev, SseMessage 0 error_ev,
                 SseMessage 0 progress_ev]"
      and ?s0.0 = "step (SseMessage 0 done_ev) job_running" and ?d0.0 = error_ev
      and ?s1.0 = job_running and ?d1.0 = error_ev and ?es1.0 = "[SseMessage 0 done_ev]"
      and ?s2.0 = job_running and ?d2.0 = done_ev and ?es2.0 = "[SseMessage 0 error_ev]"]
    o e d c hd
  show ?thesis by blast
qed

subsection \<open>C5: failures of the progress stream\<close>

text \<open>
  C5, as stated: every failure of the batch stream, an error event in the stream or an
  error signalled by the channel itself, is reported to the user, the job is shown as
  failed, and the subscription is torn down. The handler of the channel's own error only
  closes the event source. In the run below an export of the file \<open>f1\<close> is started, the
  job is created with the id \<open>b1\<close> and its event source (handle 0) is open; then the channel
  signals an error: the source is closed, but no alert is shown and the progress section
  stays on the page as it was.
\<close>

theorem C5_transport_error_not_reported:
  "es_open 0 (run [ExportAllClicked, BatchStartSettled 1 (Replied True (Body (Some ''b1'')))] one_file) \<and>
   \<not> es_open 0
       (run [ExportAllClicked, BatchStartSettled 1 (Replied True (Body (Some ''b1''))), SseError 0]
          one_file) \<and>
   alerts
     (run [ExportAllClicked, BatchStartSettled 1 (Replied True (Body (Some ''b1''))), SseError 0]
        one_file) = [] \<and>
   console
     (run [ExportAllClicked, BatchStartSettled 1 (Replied True (Body (Some ''b1''))), SseError 0]
        one_file) = [] \<and>
   progressSection_display
     (run [ExportAllClicked, BatchStartSettled 1 (Replied True (Body (Some ''b1''))), SseError 0]
        one_file) = D_block"
  by (simp add: eval_defs)

text \<open>
  C5, amended: an error event in the stream is reported to the user in an alert, hides
  the progress section and closes the subscription. An error signalled by the channel
  itself closes the subscription and does nothing else: nothing is reported and nothing
  on the page changes.
\<close>

theorem C5_stream_failures:
  assumes "es_open h s"
  shows "(truthy (ev_error d) \<longrightarrow>
            \<not> es_open h (step (SseMessage h d) s) \<and>
            alerts (step (SseMessage h d) s) = alerts s @ [the (ev_error d)] \<and>
            progressSection_display (step (SseMessage h d) s) = D_none) \<and>
         step (SseError h) s = s\<lparr>sources := (sources s)[h := (fst (sources s ! h), False)]\<rparr> \<and>
         \<not> es_open h (step (SseError h) s)"
  using assms
  by (auto simp: onmessage_def onerror_def) (simp_all add: es_close_def es_open_def)

theorem C5_stream_failures_witness:
  "es_open 0 (run [ExportAllClicked, BatchStartSettled 1 (Replied True (Body (Some ''b1'')))] one_file) \<and>
   truthy (ev_error \<lparr>ev_error = Some ''disk full'', ev_current = 1, ev_total = 3,
                      ev_status = None, ev_current_file = None, ev_done = False,
                      ev_results = []\<rparr>) \<and>
   alerts
     (step (SseMessage 0 \<lparr>ev_error = Some ''disk full'', ev_current = 1, ev_total = 3,
                           ev_status = None, ev_current_file = None, ev_done = False,
                           ev_results = []\<rparr>)
        (run [ExportAllClicked, BatchStartSettled 1 (Replied True (Body (Some ''b1'')))] one_file))
     = alerts (run [ExportAllClicked, BatchStartSettled 1 (Replied True (Body (Some ''b1'')))] one_file)
       @ [the (ev_error \<lparr>ev_error = Some ''disk full'', ev_current = 1, ev_total = 3,
                          ev_status = None, ev_current_file = None, ev_done = False,
                          ev_results = []\<rparr>)] \<and>
   \<not> es_open 0
       (step (SseError 0)
          (run [ExportAllClicked, BatchStartSettled 1 (Replied True (Body (Some ''b1'')))] one_file))"
proof -
  have a: "es_open 0 (run [ExportAllClicked, BatchStartSettled 1 (Replied True (Body (Some ''b1'')))] one_file)"
    by (simp add: eval_defs)
  have b: "truthy (ev_error \<lparr>ev_error = Some ''disk full'', ev_current = 1, ev_total = 3,
                      ev_status = None, ev_current_file = None, ev_done = False,
                      ev_results = []\<rparr>)"
    by (simp add: truthy_def)
  from C5_stream_failures[OF a, of "\<lparr>ev_error = Some ''disk full'', ev_current = 1, ev_total = 3,
                           ev_status = None, ev_current_file = None, ev_done = False,
                           ev_results = []\<rparr>"] a b
  show ?thesis by blast
qed

subsection \<open>C6: a job that could not be created\<close>

text \<open>
  C6 says that a failed job-creation request is reported and opens no subscription. The
  script handles a request that fails at the network, or whose body cannot be read, in
  that way, but it never looks at the status of the response. In the run below the
  export of the file \<open>f1\<close> is answered with an error status and a JSON object without a
  batch id (the shape in which the server reports errors): an event source is opened for
  the id \<^verbatim>\<open>undefined\<close>, nothing is reported, and the progress section stays on the page.
\<close>

theorem C6_error_status_opens_subscription:
  "request_of (step ExportAllClicked one_file) 1
     = Some (Req_batch_start [''f1''] defaultSettings None) \<and>
   sources (run [ExportAllClicked, BatchStartSettled 1 (Replied False (Body None))] one_file)
     = [(None, True)] \<and>
   alerts (run [ExportAllClicked, BatchStartSettled 1 (Replied False (Body None))] one_file) = [] \<and>
   progressSection_display
     (run [ExportAllClicked, BatchStartSettled 1 (Replied False (Body None))] one_file) = D_block"
  by (simp add: eval_defs)

subsection \<open>C7: the baseline image of compare mode\<close>









subsection \<open>C8: a preset that could not be fetched\<close>

text \<open>
  C8 says that a failed preset or defaults fetch leaves the settings unchanged. That
  holds for a request that fails at the network and for a body that is not JSON. But the
  script never looks at the status of the response: in the run below the preset request
  is answered with an error status and the JSON object of an error message, and that
  object replaces the whole settings vector. (Writing the controls then throws, which is
  what gets logged; the settings are already gone.)
\<close>

theorem C8_error_status_replaces_settings:
  "request_of (step PresetClicked init_app) 0 = Some (Req_preset ''landscape-lighting'') \<and>
   settings init_app = defaultSettings \<and>
   settings
     (run [PresetClicked,
           PresetSettled 0 (Replied False (Body [(''error'', JStr ''Unknown preset'')]))] init_app)
     = [(''error'', JStr ''Unknown preset'')] \<and>
   console
     (run [PresetClicked,
           PresetSettled 0 (Replied False (Body [(''error'', JStr ''Unknown preset'')]))] init_app)
     = [''Failed to load preset:'']"
  by (simp add: eval_defs)

subsection \<open>C9: the active file after a deletion\<close>

text \<open>
  The ids of the list come back from the markup. A file whose id is \<^verbatim>\<open>a&amp;b\<close> is written
  into the list as it is; the markup is not plain, and the click on its name that makes
  \<^verbatim>\<open>a&b\<close> the active file is among the clicks the list can deliver. That id is not the id of
  a file of the registry.
\<close>

lemma id_read_back_from_markup:
  "map file_id
     (files (run [FilesChosen [''a.raw''],
                  UploadSettled 0
                    (Replied True
                       (Body \<lparr>u_file_id = ''a&amp;b'', u_filename = ''a.raw'', u_error = []\<rparr>)),
                  FilenameClicked ''a&b''] init_app)) = [''a&amp;b'']"
  "activeFileId
     (run [FilesChosen [''a.raw''],
           UploadSettled 0
             (Replied True (Body \<lparr>u_file_id = ''a&amp;b'', u_filename = ''a.raw'', u_error = []\<rparr>)),
           FilenameClicked ''a&b''] init_app) = Some ''a&b''"
  by (simp_all add: eval_defs)

text \<open>
  C9 says that the active file is always \<^verbatim>\<open>null\<close> or a file of the registry, and that
  when the deletion of the active file leaves no file, the active file becomes \<^verbatim>\<open>null\<close> and
  no preview fetch is issued. \<^verbatim>\<open>updatePreview\<close> has the guard for that, and \<^verbatim>\<open>deleteFile\<close>
  calls it only for an active file; but \<^verbatim>\<open>deleteFile\<close> does not clear a timeout that is
  pending, and the callback of the timeout has no guard. In the run below the only file
  \<open>f1\<close> has just been uploaded, so that the debounce timeout with the handle 1 is live;
  the file is deleted and the server answers before the timeout fires: the registry is
  empty, the active file is \<^verbatim>\<open>null\<close>, the timeout is still live, and when it fires a
  preview request is issued for the file \<^verbatim>\<open>null\<close>.
\<close>

theorem C9_preview_fetch_after_last_file_deleted:
  "activeFileId one_file = Some ''f1'' \<and>
   timers one_file = [1] \<and>
   has_item one_file ''f1'' \<and>
   files (run [DeleteClicked ''f1'', DeleteSettled 1 (Replied True (Body ()))] one_file) = [] \<and>
   activeFileId (run [DeleteClicked ''f1'', DeleteSettled 1 (Replied True (Body ()))] one_file) = None \<and>
   timers (run [DeleteClicked ''f1'', DeleteSettled 1 (Replied True (Body ()))] one_file) = [1] \<and>
   issued (run [DeleteClicked ''f1'', DeleteSettled 1 (Replied True (Body ()))] one_file)
     = [Req_upload ''a.raw'' [], Req_delete ''f1''] \<and>
   issued (run [DeleteClicked ''f1'', DeleteSettled 1 (Replied True (Body ())), TimerFired 1] one_file)
     = [Req_upload ''a.raw'' [], Req_delete ''f1'', Req_preview None defaultSettings]"
  by (simp add: eval_defs)

subsection \<open>C10: what deleting and uploading leave alone\<close>

text \<open>
  C10: when the server has answered the request to delete a file that is not the active
  file, every entry with that id leaves the registry, the other entries stay in order,
  and the active file, the cached baseline image, the preview shown and the debounce
  timeout are as before; no request is issued. (A delete request that fails at the
  network changes neither the registry nor the active file.) When an upload succeeds
  while a file is active, the new file is appended, selected for export, and the active
  file, the cached baseline and the debounce timeout are as before; when no file is
  active, the uploaded file becomes the active file.
\<close>

theorem C10_delete_and_upload_frame:
  "(request_of s h = Some (Req_delete fileId) \<and> activeFileId s \<noteq> Some fileId \<longrightarrow>
      files (step (DeleteSettled h (Replied ok b)) s) = filter (\<lambda>f. file_id f \<noteq> fileId) (files s) \<and>
      activeFileId (step (DeleteSettled h (Replied ok b)) s) = activeFileId s \<and>
      beforeImageUrl (step (DeleteSettled h (Replied ok b)) s) = beforeImageUrl s \<and>
      beforeImage_src (step (DeleteSettled h (Replied ok b)) s) = beforeImage_src s \<and>
      previewImage_src (step (DeleteSettled h (Replied ok b)) s) = previewImage_src s \<and>
      previewImage_display (step (DeleteSettled h (Replied ok b)) s) = previewImage_display s \<and>
      afterImage_src (step (DeleteSettled h (Replied ok b)) s) = afterImage_src s \<and>
      issued (step (DeleteSettled h (Replied ok b)) s) = issued s \<and>
      timers (step (DeleteSettled h (Replied ok b)) s) = timers s \<and>
      files (step (DeleteSettled h (Rejected msg)) s) = files s \<and>
      activeFileId (step (DeleteSettled h (Rejected msg)) s) = activeFileId s) \<and>
   (request_of s1 h1 = Some (Req_upload fa ra) \<and> truthy (activeFileId s1) \<longrightarrow>
      files (step (UploadSettled h1 (Replied True (Body data))) s1) =
        files s1 @ [\<lparr>file_id = u_file_id data, filename = u_filename data, selected = True\<rparr>] \<and>
      activeFileId (step (UploadSettled h1 (Replied True (Body data))) s1) = activeFileId s1 \<and>
      beforeImageUrl (step (UploadSettled h1 (Replied True (Body data))) s1) = beforeImageUrl s1 \<and>
      previewImage_src (step (UploadSettled h1 (Replied True (Body data))) s1) = previewImage_src s1 \<and>
      timers (step (UploadSettled h1 (Replied True (Body data))) s1) = timers s1) \<and>
   (request_of s2 h2 = Some (Req_upload fb rb) \<and> \<not> truthy (activeFileId s2) \<longrightarrow>
      activeFileId (step (UploadSettled h2 (Replied True (Body data2))) s2) = Some (u_file_id data2))"
proof (intro conjI impI)
  assume a: "request_of s h = Some (Req_delete fileId) \<and> activeFileId s \<noteq> Some fileId"
  then have d: "deleteFile_resume fileId (Replied ok b) (settle h s) =
                updateUI (settle h s\<lparr>files := filter (\<lambda>f. file_id f \<noteq> fileId) (files s)\<rparr>)"
    by (simp add: deleteFile_resume_def Let_def)
  from a show "files (step (DeleteSettled h (Replied ok b)) s) = filter (\<lambda>f. file_id f \<noteq> fileId) (files s)"
    by (simp add: d)
  from a show "activeFileId (step (DeleteSettled h (Replied ok b)) s) = activeFileId s"
    by (simp add: d)
  from a show "beforeImageUrl (step (DeleteSettled h (Replied ok b)) s) = beforeImageUrl s"
    by (simp add: d)
  from a show "beforeImage_src (step (DeleteSettled h (Replied ok b)) s) = beforeImage_src s"
    by (simp add: d)
  from a show "previewImage_src (step (DeleteSettled h (Replied ok b)) s) = previewImage_src s"
    by (simp add: d)
  from a show "previewImage_display (step (DeleteSettled h (Replied ok b)) s) = previewImage_display s"
    by (simp add: d, simp add: updateUI_def updateFileList_def settle_def)
  from a show "afterImage_src (step (DeleteSettled h (Replied ok b)) s) = afterImage_src s"
    by (simp add: d)
  from a show "issued (step (DeleteSettled h (Replied ok b)) s) = issued s"
    by (simp add: d)
  from a show "timers (step (DeleteSettled h (Replied ok b)) s) = timers s"
    by (simp add: d)
  from a show "files (step (DeleteSettled h (Rejected msg)) s) = files s"
    by (simp add: deleteFile_resume_Rejected)
  from a show "activeFileId (step (DeleteSettled h (Rejected msg)) s) = activeFileId s"
    by (simp add: deleteFile_resume_Rejected)
next
  assume a: "request_of s1 h1 = Some (Req_upload fa ra) \<and> truthy (activeFileId s1)"
  then have d: "uploadFile_resume (Replied True (Body data)) (settle h1 s1) =
                settle h1 s1\<lparr>files := files s1 @
                  [\<lparr>file_id = u_file_id data, filename = u_filename data, selected = True\<rparr>]\<rparr>"
    by (simp add: uploadFile_resume_def Let_def)
  from a show "files (step (UploadSettled h1 (Replied True (Body data))) s1) =
        files s1 @ [\<lparr>file_id = u_file_id data, filename = u_filename data, selected = True\<rparr>]"
    by (simp add: d)
  from a show "activeFileId (step (UploadSettled h1 (Replied True (Body data))) s1) = activeFileId s1"
    by (simp add: d)
  from a show "beforeImageUrl (step (UploadSettled h1 (Replied True (Body data))) s1) = beforeImageUrl s1"
    by (simp add: d)
  from a show "previewImage_src (step (UploadSettled h1 (Replied True (Body data))) s1) = previewImage_src s1"
    by (simp add: d)
  from a show "timers (step (UploadSettled h1 (Replied True (Body data))) s1) = timers s1"
    by (simp add: d)
next
  assume a: "request_of s2 h2 = Some (Req_upload fb rb) \<and> \<not> truthy (activeFileId s2)"
  then show "activeFileId (step (UploadSettled h2 (Replied True (Body data2))) s2) = Some (u_file_id data2)"
    by (simp add: uploadFile_resume_def Let_def)
qed

theorem C10_delete_and_upload_frame_witness:
  "(request_of (step (DeleteClicked ''f2'') two_files) 2 = Some (Req_delete ''f2'') \<and>
    activeFileId (step (DeleteClicked ''f2'') two_files) \<noteq> Some ''f2'') \<and>
   activeFileId (step (DeleteClicked ''f2'') two_files) = Some ''f1'' \<and>
   map file_id (files (step (DeleteClicked ''f2'') two_files)) = [''f1'', ''f2''] \<and>
   files (step (DeleteSettled 2 (Replied True (Body ()))) (step (DeleteClicked ''f2'') two_files))
     = filter (\<lambda>f. file_id f \<noteq> ''f2'') (files (step (DeleteClicked ''f2'') two_files)) \<and>
   activeFileId (step (DeleteSettled 2 (Replied True (Body ()))) (step (DeleteClicked ''f2'') two_files))
     = activeFileId (step (DeleteClicked ''f2'') two_files) \<and>
   (request_of (step (FilesChosen [''c.raw'']) one_file) 1 = Some (Req_upload ''c.raw'' []) \<and>
    truthy (activeFileId (step (FilesChosen [''c.raw'']) one_file))) \<and>
   activeFileId
     (step (UploadSettled 1
              (Replied True (Body \<lparr>u_file_id = ''f3'', u_filename = ''c.raw'', u_error = []\<rparr>)))
        (step (FilesChosen [''c.raw'']) one_file))
     = activeFileId (step (FilesChosen [''c.raw'']) one_file) \<and>
   (request_of (step (FilesChosen [''a.raw'']) init_app) 0 = Some (Req_upload ''a.raw'' []) \<and>
    \<not> truthy (activeFileId (step (FilesChosen [''a.raw'']) init_app))) \<and>
   activeFileId
     (step (UploadSettled 0
              (Replied True (Body \<lparr>u_file_id = ''f1'', u_filename = ''a.raw'', u_error = []\<rparr>)))
        (step (FilesChosen [''a.raw'']) init_app))
     = Some (u_file_id \<lparr>u_file_id = ''f1'', u_filename = ''a.raw'', u_error = []\<rparr>)"
proof -
  have a: "request_of (step (DeleteClicked ''f2'') two_files) 2 = Some (Req_delete ''f2'') \<and>
           activeFileId (step (DeleteClicked ''f2'') two_files) \<noteq> Some ''f2''"
    by (simp add: eval_defs)
  have b: "activeFileId (step (DeleteClicked ''f2'') two_files) = Some ''f1''"
    by (simp add: eval_defs)
  have c: "map file_id (files (step (DeleteClicked ''f2'') two_files)) = [''f1'', ''f2'']"
    by (simp add: eval_defs)
  have d: "request_of (step (FilesChosen [''c.raw'']) one_file) 1 = Some (Req_upload ''c.raw'' []) \<and>
           truthy (activeFileId (step (FilesChosen [''c.raw'']) one_file))"
    by (simp add: eval_defs)
  have e: "request_of (step (FilesChosen [''a.raw'']) init_app) 0 = Some (Req_upload ''a.raw'' []) \<and>
           \<not> truthy (activeFileId (step (FilesChosen [''a.raw'']) init_app))"
    by (simp add: eval_defs)
  from C10_delete_and_upload_frame[where s = "step (DeleteClicked ''f2'') two_files" and h = 2
      and fileId = "''f2''" and ok = True and b = "Body ()"
      and ?s1.0 = "step (FilesChosen [''c.raw'']) one_file" and ?h1.0 = 1 and fa = "''c.raw''"
      and ra = "[]" and data = "\<lparr>u_file_id = ''f3'', u_filename = ''c.raw'', u_error = []\<rparr>"
      and ?s2.0 = "step (FilesChosen [''a.raw'']) init_app" and ?h2.0 = 0 and fb = "''a.raw''"
      and rb = "[]" and ?data2.0 = "\<lparr>u_file_id = ''f1'', u_filename = ''a.raw'', u_error = []\<rparr>"]
    a b c d e
  show ?thesis by blast
qed

end
